theory Spec2Isabelle
  imports Main
begin

section \<open>Text and number helpers of the Go standard library\<close>

text \<open>
  Go strings are byte sequences; they are modelled as \<open>string\<close> (a list of 8-bit
  characters). \<open>len\<close> is \<open>length\<close>, \<open>s[i:]\<close> is \<open>drop i s\<close>, \<open>s[:i]\<close> is
  \<open>take i s\<close>.
\<close>

definition HasPrefix :: "string \<Rightarrow> string \<Rightarrow> bool" where
  "HasPrefix s prefix = (take (length prefix) s = prefix)"

text \<open>\<open>bytes.Split(data, sep)\<close> for a one-byte separator: an empty input gives one empty piece.\<close>

fun Split :: "char \<Rightarrow> string \<Rightarrow> string list" where
  "Split sep [] = [[]]"
| "Split sep (c # cs) =
     (if c = sep then [] # Split sep cs
      else (case Split sep cs of [] \<Rightarrow> [[c]] | w # ws \<Rightarrow> (c # w) # ws))"

text \<open>\<open>strings.SplitN(s, sep, 2)\<close> for a one-byte separator: cut at the first separator only.\<close>

definition SplitN2 :: "char \<Rightarrow> string \<Rightarrow> string list" where
  "SplitN2 sep s =
     (case dropWhile (\<lambda>c. c \<noteq> sep) s of
        [] \<Rightarrow> [s]
      | _ # rest \<Rightarrow> [takeWhile (\<lambda>c. c \<noteq> sep) s, rest])"

definition digitChar :: "nat \<Rightarrow> char" where
  "digitChar d = ''0123456789'' ! d"

function natDigits :: "nat \<Rightarrow> string" where
  "natDigits n = (if n < 10 then [digitChar n] else natDigits (n div 10) @ [digitChar (n mod 10)])"
  by pat_completeness auto
termination
  by (relation "measure (\<lambda>n. n)") auto

declare natDigits.simps [simp del]

text \<open>\<open>strconv.Itoa\<close>.\<close>

definition Itoa :: "int \<Rightarrow> string" where
  "Itoa i = (if i < 0 then CHR ''-'' # natDigits (nat (- i)) else natDigits (nat i))"

definition digitVal :: "char \<Rightarrow> nat option" where
  "digitVal c = map_of (zip ''0123456789'' [0, 1, 2, 3, 4, 5, 6, 7, 8, 9]) c"

text \<open>The value of a run of decimal digits, most significant first; \<open>None\<close> on any other byte.\<close>

fun decimal :: "nat \<Rightarrow> string \<Rightarrow> nat option" where
  "decimal acc [] = Some acc"
| "decimal acc (c # cs) =
     (case digitVal c of None \<Rightarrow> None | Some d \<Rightarrow> decimal (10 * acc + d) cs)"


section \<open>Types, values and errors\<close>

text \<open>\<open>reflect.Kind\<close>; \<open>reflect.Int\<close> is \<open>IntK\<close>.\<close>

datatype kind =
    Invalid | Bool | IntK | Int8 | Int16 | Int32 | Int64
  | Uint | Uint8 | Uint16 | Uint32 | Uint64 | Uintptr
  | Float32 | Float64 | Complex64 | Complex128
  | Array | Chan | Func | Interface | Map | Pointer | Slice | String | Struct
  | UnsafePointer

text \<open>
  \<open>reflect.Type\<close>: a predeclared scalar type (\<open>Prim\<close>), a defined type with its name and
  underlying type, or a composite type. A struct field carries what \<open>reflect.StructField\<close>
  does: its name, its package path (empty exactly when the field is exported), its type,
  the value of its \<open>query\<close> tag (\<open>ft.Tag.Get("query")\<close>) and whether it is embedded.
\<close>

datatype gotype =
    Prim kind
  | Named string gotype
  | PtrT gotype
  | SliceT gotype
  | ArrayT nat gotype
  | MapT gotype gotype
  | StructT "StructField list"
  | InterfaceT "string list"
  | OtherT kind string
and StructField =
    StructField (Name: string) (PkgPath: string) (FieldType: gotype) (QueryTag: string)
      (Anonymous: bool)

primrec underlying :: "gotype \<Rightarrow> gotype" where
  "underlying (Prim k) = Prim k"
| "underlying (Named n u) = underlying u"
| "underlying (PtrT e) = PtrT e"
| "underlying (SliceT e) = SliceT e"
| "underlying (ArrayT n e) = ArrayT n e"
| "underlying (MapT k e) = MapT k e"
| "underlying (StructT fs) = StructT fs"
| "underlying (InterfaceT ms) = InterfaceT ms"
| "underlying (OtherT k s) = OtherT k s"

text \<open>\<open>Type.Kind()\<close>.\<close>

definition typeKind :: "gotype \<Rightarrow> kind" where
  "typeKind t =
     (case underlying t of
        Prim k \<Rightarrow> k | Named n u \<Rightarrow> Invalid | PtrT e \<Rightarrow> Pointer | SliceT e \<Rightarrow> Slice
      | ArrayT n e \<Rightarrow> Array | MapT k e \<Rightarrow> Map | StructT fs \<Rightarrow> Struct
      | InterfaceT ms \<Rightarrow> Interface | OtherT k s \<Rightarrow> k)"

text \<open>\<open>Type.Elem()\<close> and \<open>Type.Key()\<close>; they panic (\<open>None\<close>) on a kind without one.\<close>

definition typeElem :: "gotype \<Rightarrow> gotype option" where
  "typeElem t =
     (case underlying t of
        PtrT e \<Rightarrow> Some e | SliceT e \<Rightarrow> Some e | ArrayT n e \<Rightarrow> Some e | MapT k e \<Rightarrow> Some e
      | _ \<Rightarrow> None)"

definition typeKey :: "gotype \<Rightarrow> gotype option" where
  "typeKey t = (case underlying t of MapT k e \<Rightarrow> Some k | _ \<Rightarrow> None)"

definition typeFields :: "gotype \<Rightarrow> StructField list option" where
  "typeFields t = (case underlying t of StructT fs \<Rightarrow> Some fs | _ \<Rightarrow> None)"

text \<open>
  Floating-point numbers are not interpreted: a finite value is a mantissa and a binary
  exponent as the runtime's parser delivers it.
\<close>

datatype gofloat = Finite int int | PosInf | NegInf | NaN

text \<open>
  The content of a \<open>reflect.Value\<close>: each value records its type. A pointer, an interface,
  a map and a slice may be nil (\<open>None\<close>). The destination is a tree: a pointer owns its
  pointee, so two locations of a destination never share storage.
\<close>

datatype govalue =
    VInvalid
  | VBool gotype bool
  | VInt gotype int
  | VUint gotype nat
  | VFloat gotype gofloat
  | VString gotype string
  | VPtr gotype "govalue option"
  | VInterface gotype "govalue option"
  | VMap gotype "(govalue \<times> govalue) list option"
  | VSlice gotype "govalue list option"
  | VArray gotype "govalue list"
  | VStruct gotype "govalue list"
  | VOther gotype string

text \<open>\<open>Value.Type()\<close> panics on the zero Value (\<open>None\<close>); \<open>Value.Kind()\<close> is \<open>Invalid\<close> there.\<close>

fun TypeOf :: "govalue \<Rightarrow> gotype option" where
  "TypeOf VInvalid = None"
| "TypeOf (VBool t b) = Some t"
| "TypeOf (VInt t i) = Some t"
| "TypeOf (VUint t n) = Some t"
| "TypeOf (VFloat t f) = Some t"
| "TypeOf (VString t s) = Some t"
| "TypeOf (VPtr t x) = Some t"
| "TypeOf (VInterface t x) = Some t"
| "TypeOf (VMap t m) = Some t"
| "TypeOf (VSlice t xs) = Some t"
| "TypeOf (VArray t xs) = Some t"
| "TypeOf (VStruct t xs) = Some t"
| "TypeOf (VOther t s) = Some t"

definition Kind :: "govalue \<Rightarrow> kind" where
  "Kind v = (case TypeOf v of None \<Rightarrow> Invalid | Some t \<Rightarrow> typeKind t)"

text \<open>\<open>Value.IsNil()\<close> on a pointer, interface, map or slice.\<close>

fun IsNil :: "govalue \<Rightarrow> bool" where
  "IsNil (VPtr t x) = (x = None)"
| "IsNil (VInterface t x) = (x = None)"
| "IsNil (VMap t m) = (m = None)"
| "IsNil (VSlice t xs) = (xs = None)"
| "IsNil v = False"

text \<open>The zero value of a type, as \<open>reflect.New\<close>, \<open>reflect.MakeSlice\<close> and \<open>reflect.Zero\<close> produce it.\<close>

definition zeroPrim :: "gotype \<Rightarrow> kind \<Rightarrow> govalue" where
  "zeroPrim T k =
     (if k = Bool then VBool T False
      else if k \<in> {IntK, Int8, Int16, Int32, Int64} then VInt T 0
      else if k \<in> {Uint, Uint8, Uint16, Uint32, Uint64, Uintptr} then VUint T 0
      else if k \<in> {Float32, Float64} then VFloat T (Finite 0 0)
      else if k = String then VString T []
      else VOther T [])"

primrec zeroAs :: "gotype \<Rightarrow> gotype \<Rightarrow> govalue" and zeroField :: "StructField \<Rightarrow> govalue" where
  "zeroAs (Prim k) T = zeroPrim T k"
| "zeroAs (Named n u) T = zeroAs u T"
| "zeroAs (PtrT e) T = VPtr T None"
| "zeroAs (SliceT e) T = VSlice T None"
| "zeroAs (ArrayT n e) T = VArray T (replicate n (zeroAs e e))"
| "zeroAs (MapT k e) T = VMap T None"
| "zeroAs (StructT fs) T = VStruct T (map zeroField fs)"
| "zeroAs (InterfaceT ms) T = VInterface T None"
| "zeroAs (OtherT k s) T = VOther T []"
| "zeroField (StructField n pk t tag an) = zeroAs t t"

definition zero :: "gotype \<Rightarrow> govalue" where
  "zero t = zeroAs t t"

text \<open>
  The error values of \<open>error.go\<close>, with their fields in declaration order
  (\<open>ErrInvalidParamValue\<close> is \<open>val\<close>, \<open>key\<close>, \<open>err\<close>; the map type errors are \<open>key\<close>, \<open>typ\<close>),
  and the errors of other packages that reach the caller: \<open>*strconv.NumError\<close> (function,
  input, cause) and any other error as its text.
\<close>

datatype error =
    ErrInvalidParamKey string error
  | ErrMissingRequiredParam string
  | ErrInvalidParamValue string string error
  | ErrUnhandledType gotype
  | ErrInvalidUnmarshalError
  | ErrUnsupportedBitSize int
  | ErrTranslated error
  | ErrInvalidMapKeyType string gotype
  | ErrInvalidMapValueType string gotype
  | NumError string string string
  | ErrorString string

text \<open>\<open>Unwrap\<close>, and the chain \<open>errors.As\<close> walks.\<close>

fun errChain :: "error \<Rightarrow> error list" where
  "errChain (ErrInvalidParamKey k e) = ErrInvalidParamKey k e # errChain e"
| "errChain (ErrInvalidParamValue v k e) = ErrInvalidParamValue v k e # errChain e"
| "errChain (ErrTranslated e) = ErrTranslated e # errChain e"
| "errChain e = [e]"

fun paramKeyOf :: "error \<Rightarrow> string option" where
  "paramKeyOf (ErrInvalidParamKey k e) = Some k"
| "paramKeyOf e = None"

fun paramValueKeyOf :: "error \<Rightarrow> string option" where
  "paramValueKeyOf (ErrInvalidParamValue v k e) = Some k"
| "paramValueKeyOf e = None"

fun missingKeyOf :: "error \<Rightarrow> string option" where
  "missingKeyOf (ErrMissingRequiredParam k) = Some k"
| "missingKeyOf e = None"



text \<open>\<open>errors.As(err, &target)\<close> for one error type: the first error of the chain of that type.\<close>

definition errorsAs :: "(error \<Rightarrow> 'a option) \<Rightarrow> error \<Rightarrow> 'a option" where
  "errorsAs sel e = (case List.map_filter sel (errChain e) of [] \<Rightarrow> None | x # xs \<Rightarrow> Some x)"


definition IsMissingParamError :: "error option \<Rightarrow> bool" where
  "IsMissingParamError err =
     (case err of None \<Rightarrow> False | Some e \<Rightarrow> errorsAs missingKeyOf e \<noteq> None)"

definition IsInvalidParamError :: "error option \<Rightarrow> bool" where
  "IsInvalidParamError err =
     (case err of
        None \<Rightarrow> False
      | Some e \<Rightarrow> errorsAs paramKeyOf e \<noteq> None \<or> errorsAs paramValueKeyOf e \<noteq> None)"


section \<open>Number parsing (\<open>strconv\<close>)\<close>

text \<open>
  \<open>strconv.ParseUint(s, 10, bitSize)\<close> scans digit by digit and stops at the first byte
  that is no digit (a syntax error) or at the first digit that takes the value above the
  largest value of the size (a range error). \<open>int\<close> and \<open>uint\<close> are 64 bits wide.
\<close>

definition bitsOf :: "nat \<Rightarrow> nat" where
  "bitsOf bitSize = (if bitSize = 0 then 64 else bitSize)"

fun scanUint :: "nat \<Rightarrow> nat \<Rightarrow> string \<Rightarrow> string + nat" where
  "scanUint maxVal n [] = Inr n"
| "scanUint maxVal n (c # cs) =
     (case digitVal c of
        None \<Rightarrow> Inl ''invalid syntax''
      | Some d \<Rightarrow>
          if 10 * n + d > maxVal then Inl ''value out of range''
          else scanUint maxVal (10 * n + d) cs)"

definition ParseUint :: "string \<Rightarrow> string \<Rightarrow> nat \<Rightarrow> error + nat" where
  "ParseUint fn s bitSize =
     (if s = [] then Inl (NumError fn s ''invalid syntax'')
      else (case scanUint (2 ^ bitsOf bitSize - 1) 0 s of
              Inl cause \<Rightarrow> Inl (NumError fn s cause)
            | Inr n \<Rightarrow> Inr n))"

definition ParseInt :: "string \<Rightarrow> string \<Rightarrow> nat \<Rightarrow> error + int" where
  "ParseInt fn s0 bitSize =
     (case s0 of
        [] \<Rightarrow> Inl (NumError fn s0 ''invalid syntax'')
      | c # cs \<Rightarrow>
          (let neg = (c = CHR ''-'');
               s = (if c = CHR ''+'' \<or> c = CHR ''-'' then cs else s0)
           in if s = [] then Inl (NumError fn s0 ''invalid syntax'')
              else (case scanUint (2 ^ bitsOf bitSize - 1) 0 s of
                      Inl cause \<Rightarrow>
                        (if cause = ''invalid syntax'' then Inl (NumError fn s0 ''invalid syntax'')
                         else Inl (NumError fn s0 ''value out of range''))
                    | Inr un \<Rightarrow>
                        (let cutoff = 2 ^ (bitsOf bitSize - 1)
                         in if \<not> neg \<and> un \<ge> cutoff then Inl (NumError fn s0 ''value out of range'')
                            else if neg \<and> un > cutoff then Inl (NumError fn s0 ''value out of range'')
                            else Inr (if neg then - int un else int un)))))"

definition Atoi :: "string \<Rightarrow> error + int" where
  "Atoi s = ParseInt ''Atoi'' s 0"

definition ParseBool :: "string \<Rightarrow> error + bool" where
  "ParseBool str =
     (if str \<in> set [''1'', ''t'', ''T'', ''TRUE'', ''true'', ''True''] then Inr True
      else if str \<in> set [''0'', ''f'', ''F'', ''FALSE'', ''false'', ''False''] then Inr False
      else Inl (NumError ''ParseBool'' str ''invalid syntax''))"

section \<open>What the decode engine takes from outside\<close>

text \<open>
  A \<open>QueryEncoder\<close> is the injectable escaping strategy. \<open>UnEscape\<close> returns a string and
  an error, as the Go method does; it is taken to be a function of its argument.
\<close>

record QueryEncoder =
  Escape :: "string \<Rightarrow> string"
  UnEscape :: "string \<Rightarrow> string \<times> error option"

text \<open>\<open>valueDecode\<close> and \<open>ValueDecoder\<close> of \<open>valuedecoder.go\<close>.\<close>

type_synonym valueDecode = "string \<Rightarrow> error + govalue"

record ValueDecoder =
  DecodesType :: "gotype \<Rightarrow> bool"
  Decode :: "string \<Rightarrow> error + govalue"

text \<open>
  The facts of the Go runtime and of the caller's program that the engine consults through
  \<open>reflect\<close>, \<open>time\<close> and \<open>strconv\<close>, taken as parameters: whether \<open>time.Time\<close> converts to
  a type, \<open>time.Parse(time.RFC3339, _)\<close>, whether a type implements \<open>Decodable\<close>, the
  caller's \<open>UnmarshalQueryParam\<close> (it receives the receiver and returns it as the call
  leaves it, with the error), \<open>Value.CanConvert\<close>, \<open>Value.Convert\<close> (\<open>None\<close> is its panic),
  \<open>strconv.ParseFloat\<close>, and the process-wide default escaping strategy
  \<open>getQueryEncoder()\<close>, whose source is not among the files.
\<close>

record runtime =
  ConvertibleFromTime :: "gotype \<Rightarrow> bool"
  ParseTimeRFC3339 :: "string \<Rightarrow> error + govalue"
  Implements :: "gotype \<Rightarrow> bool"
  UnmarshalQueryParam :: "govalue \<Rightarrow> string \<Rightarrow> govalue \<times> error option"
  CanConvert :: "govalue \<Rightarrow> gotype \<Rightarrow> bool"
  Convert :: "govalue \<Rightarrow> gotype \<Rightarrow> govalue option"
  ParseFloat :: "string \<Rightarrow> nat \<Rightarrow> error + gofloat"
  getQueryEncoder :: QueryEncoder

section \<open>The parser\<close>

text \<open>
  The container is a Go map from key path to raw value. It is modelled as an association
  list with distinct keys; a \<open>range\<close> over it visits the keys in the order of their first
  insertion (Go leaves the order open).
\<close>

type_synonym container = "(string \<times> string) list"

fun cset :: "container \<Rightarrow> string \<Rightarrow> string \<Rightarrow> container" where
  "cset [] k v = [(k, v)]"
| "cset ((k', v') # c) k v = (if k' = k then (k, v) # c else (k', v') # cset c k v)"

record options =
  optQueryEncoder :: "QueryEncoder option"

text \<open>
  The \<open>parser\<close> struct without its mutex. \<open>queryEncoder\<close> is nil (\<open>None\<close>) until
  \<open>resetQueryEncoder\<close> sets it. \<open>decodeFuncMap\<close> maps a kind to a registered function,
  which may be the nil function (\<open>Some None\<close>).
\<close>

record parser =
  container :: container
  err :: "error option"
  opts :: options
  queryEncoder :: "QueryEncoder option"
  decodeFuncMap :: "kind \<Rightarrow> valueDecode option option"
  customDecoders :: "ValueDecoder list"

text \<open>
  \<open>NewParser(opts...)\<close>: each option is a function on the options. \<open>WithQueryEncoder\<close>
  is the option the tests pass; its source is not among the files.
\<close>

definition NewParser :: "(options \<Rightarrow> options) list \<Rightarrow> parser" where
  "NewParser os =
     \<lparr>container = [], err = None,
      opts = fold (\<lambda>option o'. option o') os \<lparr>optQueryEncoder = None\<rparr>,
      queryEncoder = None, decodeFuncMap = (\<lambda>k. None), customDecoders = []\<rparr>"

definition WithQueryEncoder :: "QueryEncoder \<Rightarrow> options \<Rightarrow> options" where
  "WithQueryEncoder q o' = o'\<lparr>optQueryEncoder := Some q\<rparr>"

definition RegisterDecodeFunc :: "parser \<Rightarrow> kind \<Rightarrow> valueDecode option \<Rightarrow> parser" where
  "RegisterDecodeFunc p k dec = p\<lparr>decodeFuncMap := (decodeFuncMap p)(k := Some dec)\<rparr>"

definition RegisterValueDecoder :: "parser \<Rightarrow> ValueDecoder option \<Rightarrow> parser" where
  "RegisterValueDecoder p valueDecoder =
     (case valueDecoder of
        None \<Rightarrow> p
      | Some d \<Rightarrow> p\<lparr>customDecoders := customDecoders p @ [d]\<rparr>)"

definition resetQueryEncoder :: "runtime \<Rightarrow> parser \<Rightarrow> parser" where
  "resetQueryEncoder rt p =
     (case optQueryEncoder (opts p) of
        Some q \<Rightarrow> p\<lparr>queryEncoder := Some q\<rparr>
      | None \<Rightarrow> p\<lparr>queryEncoder := Some (getQueryEncoder rt)\<rparr>)"

definition get :: "parser \<Rightarrow> string \<Rightarrow> string option" where
  "get p key = map_of (container p) key"

subsection \<open>Helpers of the repository that are not among the source files\<close>

text \<open>
  Modelled from the spec: \<open>genNextParentNode\<close> is missing from the sources. The spec
  resolves a field prefix as \<open>parentPrefix[name]\<close>, or the bare \<open>name\<close> at the root;
  \<open>keyName\<close> of the parser source builds the same text.
\<close>

definition genNextParentNode :: "string \<Rightarrow> string \<Rightarrow> string" where
  "genNextParentNode parentNode key =
     (if parentNode = [] then key else parentNode @ ''['' @ key @ '']'')"

definition keyName :: "string \<Rightarrow> string \<Rightarrow> string" where
  "keyName prefix index = (if prefix = [] then index else prefix @ ''['' @ index @ '']'')"

text \<open>
  Modelled from the spec: \<open>unpackQueryKey\<close> is missing from the sources. The spec's lookup
  primitive strips exactly one bracket segment to obtain the child token: of \<open>[a][b]\<close> the
  token is \<open>a\<close> and the rest \<open>[b]\<close>; of a text that does not start with a bracket (the
  root level) the token is the text before the first bracket.
\<close>

definition unpackQueryKey :: "string \<Rightarrow> string \<times> string" where
  "unpackQueryKey key =
     (case key of
        [] \<Rightarrow> ([], [])
      | c # cs \<Rightarrow>
          if c = CHR ''['' then
            (takeWhile (\<lambda>x. x \<noteq> CHR '']'') cs, drop 1 (dropWhile (\<lambda>x. x \<noteq> CHR '']'') cs))
          else (takeWhile (\<lambda>x. x \<noteq> CHR ''['') key, dropWhile (\<lambda>x. x \<noteq> CHR ''['') key))"

text \<open>
  Modelled from the spec: \<open>isAccessMapKeyType\<close> and \<open>isAccessMapValueType\<close> are missing
  from the sources. The spec restricts map element kinds to the primitive-decodable set,
  the kinds of the fixed table: boolean, the signed and unsigned integers, the
  address-sized integer, the floats and string.
\<close>

definition primitiveKinds :: "kind list" where
  "primitiveKinds =
     [Bool, IntK, Int8, Int16, Int32, Int64, Uint, Uint8, Uint16, Uint32, Uint64, Uintptr,
      Float32, Float64, String]"

definition isAccessMapKeyType :: "kind \<Rightarrow> bool" where
  "isAccessMapKeyType k = (k \<in> set primitiveKinds)"

definition isAccessMapValueType :: "kind \<Rightarrow> bool" where
  "isAccessMapValueType k = (k \<in> set primitiveKinds)"

text \<open>
  Modelled from the spec: the tag type (\<open>newTag\<close>, \<open>getName\<close>, \<open>contains\<close>) is missing
  from the sources. The spec's tag language is comma-separated tokens: the first is the
  name override (empty: the field's own identifier), the others form a flag set.
\<close>

record tag =
  tagName :: string
  tagOptions :: "string list"

definition newTag :: "string \<Rightarrow> tag" where
  "newTag tagStr =
     (case Split (CHR '','') tagStr of
        [] \<Rightarrow> \<lparr>tagName = [], tagOptions = []\<rparr>
      | n # os \<Rightarrow> \<lparr>tagName = n, tagOptions = os\<rparr>)"

definition getName :: "tag \<Rightarrow> string" where
  "getName t = tagName t"

definition contains :: "tag \<Rightarrow> string \<Rightarrow> bool" where
  "contains t option = (option \<in> set (tagOptions t))"

text \<open>
  Modelled from the spec: the constants \<open>SymbolAnd\<close> and \<open>SymbolEqual\<close> are missing from
  the sources. The raw-byte path splits on \<open>&\<close>, then each pair on the first \<open>=\<close>.
\<close>

definition SymbolAnd :: char where
  "SymbolAnd = CHR ''&''"

definition SymbolEqual :: char where
  "SymbolEqual = CHR ''=''"


section \<open>Outcomes\<close>

text \<open>
  A call of the engine returns, panics, or exhausts the recursion budget of the model
  (\<open>OutOfFuel\<close>; the Go code has no such budget, the model's recursion needs one).
\<close>

datatype 'a result = Ret 'a | Panic string | OutOfFuel

fun bind :: "'a result \<Rightarrow> ('a \<Rightarrow> 'b result) \<Rightarrow> 'b result" where
  "bind (Ret x) f = f x"
| "bind (Panic s) f = Panic s"
| "bind OutOfFuel f = OutOfFuel"

section \<open>The flattener\<close>

text \<open>
  The scan of \<open>init\<close> for a key ending in \<open>[]\<close>: \<open>for i := 0; i < 1000000; i++\<close>, the
  first \<open>base[i]\<close> that is no container key; \<open>None\<close> when the loop ends without a \<open>break\<close>.
\<close>

definition tKeyOf :: "string \<Rightarrow> nat \<Rightarrow> string" where
  "tKeyOf base i = base @ ''['' @ Itoa (int i) @ '']''"

function autoIndex :: "container \<Rightarrow> string \<Rightarrow> nat \<Rightarrow> string option" where
  "autoIndex c base i =
     (if i < 1000000 then
        (let tKey = tKeyOf base i
         in if map_of c tKey = None then Some tKey else autoIndex c base (Suc i))
      else None)"
  by pat_completeness auto
termination
  by (relation "measure (\<lambda>(c, base, i). 1000000 - i)") auto

declare autoIndex.simps [simp del]

definition repackKey :: "container \<Rightarrow> string \<Rightarrow> string" where
  "repackKey c key =
     (let l = length key
      in if l > 2 \<and> drop (l - 2) key = ''[]'' then
           (case autoIndex c (take (l - 2) key) 0 of Some tKey \<Rightarrow> tKey | None \<Rightarrow> key)
         else key)"

fun initLoop :: "QueryEncoder \<Rightarrow> container \<Rightarrow> string list \<Rightarrow> container \<times> error option" where
  "initLoop q c [] = (c, None)"
| "initLoop q c (value # arr) =
     (case SplitN2 SymbolEqual value of
        k0 # v0 # ns \<Rightarrow>
          (case UnEscape q k0 of
             (k, Some e) \<Rightarrow> (c, Some (ErrInvalidParamKey k e))
           | (k, None) \<Rightarrow>
               (case UnEscape q v0 of
                  (v, Some e) \<Rightarrow> (c, Some (ErrInvalidParamValue k k e))
                | (v, None) \<Rightarrow> initLoop q (cset c (repackKey c k) v) arr))
      | _ \<Rightarrow> initLoop q c arr)"

text \<open>
  \<open>parser.init\<close>: the parser with the container as the call leaves it, and the returned
  error. The method call on a nil encoder panics.
\<close>

definition init :: "parser \<Rightarrow> string \<Rightarrow> (parser \<times> error option) result" where
  "init p data =
     (case queryEncoder p of
        None \<Rightarrow> Panic ''invalid memory address or nil pointer dereference''
      | Some q \<Rightarrow>
          (case initLoop q (container p) (Split SymbolAnd data) of
             (c, e) \<Rightarrow> Ret (p\<lparr>container := c\<rparr>, e)))"

text \<open>
  \<open>parser.initValues\<close>. \<open>url.Values\<close> is a Go map from key to list of values, modelled
  as an association list; \<open>values[0]\<close> of an empty list panics.
\<close>

fun indexValues :: "container \<Rightarrow> string \<Rightarrow> nat \<Rightarrow> string list \<Rightarrow> container" where
  "indexValues c key i [] = c"
| "indexValues c key i (v # values) =
     indexValues (cset c (key @ ''['' @ Itoa (int i) @ '']'') v) key (Suc i) values"

fun initValuesLoop :: "container \<Rightarrow> (string \<times> string list) list \<Rightarrow> container result" where
  "initValuesLoop c [] = Ret c"
| "initValuesLoop c ((key, values) # urlValues) =
     (let l = length key
      in if l > 2 \<and> drop (l - 2) key = ''[]'' then
           initValuesLoop (indexValues c (take (l - 2) key) 0 values) urlValues
         else (case values of
                 [] \<Rightarrow> Panic ''index out of range [0] with length 0''
               | v # vs \<Rightarrow> initValuesLoop (cset c key v) urlValues))"

definition initValues :: "parser \<Rightarrow> (string \<times> string list) list \<Rightarrow> parser result" where
  "initValues p urlValues =
     bind (initValuesLoop (container p) urlValues) (\<lambda>c. Ret (p\<lparr>container := c\<rparr>))"

section \<open>The decoder resolution chain\<close>

text \<open>\<open>TimeDecoder\<close> and the list \<open>builtinDecoders\<close>.\<close>

definition TimeDecoder :: "runtime \<Rightarrow> ValueDecoder" where
  "TimeDecoder rt = \<lparr>DecodesType = ConvertibleFromTime rt, Decode = ParseTimeRFC3339 rt\<rparr>"

definition builtinDecoders :: "runtime \<Rightarrow> ValueDecoder list" where
  "builtinDecoders rt = [TimeDecoder rt]"

definition isDecodable :: "runtime \<Rightarrow> gotype \<Rightarrow> bool" where
  "isDecodable rt typ =
     (if Implements rt typ then
        (if typeKind typ = Pointer then
           (case typeElem typ of None \<Rightarrow> False | Some e \<Rightarrow> \<not> Implements rt e)
         else if typeKind typ = Map then True
         else False)
      else Implements rt (PtrT typ))"

text \<open>\<open>Value.Elem()\<close> of a pointer that was just allocated.\<close>

fun pointee :: "govalue \<Rightarrow> govalue" where
  "pointee (VPtr t (Some x)) = x"
| "pointee v = VInvalid"

text \<open>
  \<open>maybeDecodeableDecode\<close>: \<open>None\<close> is its third result \<open>false\<close> (not decodable); otherwise
  the error or the decoded value.
\<close>

definition maybeDecodeableDecode :: "runtime \<Rightarrow> gotype \<Rightarrow> string \<Rightarrow> (error + govalue) option" where
  "maybeDecodeableDecode rt typ value =
     (let viaType = Implements rt typ;
          mustIndirect = (\<not> viaType \<and> Implements rt (PtrT typ));
          rv = (if viaType then
                  (if typeKind typ = Pointer then
                     (case typeElem typ of
                        None \<Rightarrow> None
                      | Some e \<Rightarrow> Some (VPtr (PtrT e) (Some (zero e))))
                   else if typeKind typ = Map then Some (VMap typ (Some []))
                   else None)
                else if mustIndirect then Some (VPtr (PtrT typ) (Some (zero typ)))
                else None)
      in case rv of
           None \<Rightarrow> None
         | Some d \<Rightarrow>
             (case UnmarshalQueryParam rt d value of
                (d', Some e) \<Rightarrow> Some (Inl (ErrTranslated e))
              | (d', None) \<Rightarrow> if mustIndirect then Some (Inr (pointee d')) else Some (Inr d')))"

text \<open>The primitive decoders.\<close>

definition boolDecode :: valueDecode where
  "boolDecode value =
     (case ParseBool value of
        Inl e \<Rightarrow> Inl (ErrTranslated e)
      | Inr b \<Rightarrow> Inr (VBool (Prim Bool) b))"

definition baseIntDecode :: "string \<Rightarrow> nat \<Rightarrow> error + govalue" where
  "baseIntDecode value bitSize =
     (case ParseInt ''ParseInt'' value bitSize of
        Inl e \<Rightarrow> Inl (ErrTranslated e)
      | Inr v \<Rightarrow>
          if bitSize = 64 then Inr (VInt (Prim Int64) v)
          else if bitSize = 32 then Inr (VInt (Prim Int32) v)
          else if bitSize = 16 then Inr (VInt (Prim Int16) v)
          else if bitSize = 8 then Inr (VInt (Prim Int8) v)
          else if bitSize = 0 then Inr (VInt (Prim IntK) v)
          else Inl (ErrUnsupportedBitSize (int bitSize)))"

definition intDecode :: "nat \<Rightarrow> valueDecode" where
  "intDecode bitSize = (\<lambda>value. baseIntDecode value bitSize)"

definition baseUintDecode :: "string \<Rightarrow> nat \<Rightarrow> error + govalue" where
  "baseUintDecode value bitSize =
     (case ParseUint ''ParseUint'' value bitSize of
        Inl e \<Rightarrow> Inl (ErrTranslated e)
      | Inr v \<Rightarrow>
          if bitSize = 64 then Inr (VUint (Prim Uint64) v)
          else if bitSize = 32 then Inr (VUint (Prim Uint32) v)
          else if bitSize = 16 then Inr (VUint (Prim Uint16) v)
          else if bitSize = 8 then Inr (VUint (Prim Uint8) v)
          else if bitSize = 0 then Inr (VUint (Prim Uint) v)
          else Inl (ErrUnsupportedBitSize (int bitSize)))"

definition uintDecode :: "nat \<Rightarrow> valueDecode" where
  "uintDecode bitSize = (\<lambda>value. baseUintDecode value bitSize)"

definition uintPrtDecode :: valueDecode where
  "uintPrtDecode value =
     (case ParseUint ''ParseUint'' value 0 of
        Inl e \<Rightarrow> Inl (ErrTranslated e)
      | Inr v \<Rightarrow> Inr (VUint (Prim Uintptr) v))"

definition baseFloatDecode :: "runtime \<Rightarrow> string \<Rightarrow> nat \<Rightarrow> error + govalue" where
  "baseFloatDecode rt value bitSize =
     (case ParseFloat rt value bitSize of
        Inl e \<Rightarrow> Inl (ErrTranslated e)
      | Inr v \<Rightarrow>
          if bitSize = 64 then Inr (VFloat (Prim Float64) v)
          else if bitSize = 32 then Inr (VFloat (Prim Float32) v)
          else Inl (ErrUnsupportedBitSize (int bitSize)))"

definition floatDecode :: "runtime \<Rightarrow> nat \<Rightarrow> valueDecode" where
  "floatDecode rt bitSize = (\<lambda>value. baseFloatDecode rt value bitSize)"

definition stringDecode :: valueDecode where
  "stringDecode value = Inr (VString (Prim String) value)"

text \<open>The package function \<open>getDecodeFunc\<close>: the fixed table; \<open>None\<close> is its \<open>nil\<close>.\<close>

definition getDecodeFunc :: "runtime \<Rightarrow> kind \<Rightarrow> valueDecode option" where
  "getDecodeFunc rt k =
     (case k of
        Bool \<Rightarrow> Some boolDecode
      | IntK \<Rightarrow> Some (intDecode 0)
      | Int8 \<Rightarrow> Some (intDecode 8)
      | Int16 \<Rightarrow> Some (intDecode 16)
      | Int32 \<Rightarrow> Some (intDecode 32)
      | Int64 \<Rightarrow> Some (intDecode 64)
      | Uint \<Rightarrow> Some (uintDecode 0)
      | Uint8 \<Rightarrow> Some (uintDecode 8)
      | Uint16 \<Rightarrow> Some (uintDecode 16)
      | Uint32 \<Rightarrow> Some (uintDecode 32)
      | Uint64 \<Rightarrow> Some (uintDecode 64)
      | Uintptr \<Rightarrow> Some uintPrtDecode
      | Float32 \<Rightarrow> Some (floatDecode rt 32)
      | Float64 \<Rightarrow> Some (floatDecode rt 64)
      | String \<Rightarrow> Some stringDecode
      | _ \<Rightarrow> None)"

text \<open>The method \<open>parser.getDecodeFunc\<close>: a registered function (also a nil one) wins.\<close>

definition parserGetDecodeFunc :: "runtime \<Rightarrow> parser \<Rightarrow> kind \<Rightarrow> valueDecode option" where
  "parserGetDecodeFunc rt p k =
     (case decodeFuncMap p k of
        Some decodeFunc \<Rightarrow> decodeFunc
      | None \<Rightarrow> getDecodeFunc rt k)"

text \<open>
  \<open>anyType\<close> is the type \<open>interface{}\<close>. \<open>reflect.TypeOf(anyType)\<close>, which \<open>decode\<close>
  compares with, is the type of the type descriptor itself, \<open>*reflect.rtype\<close>; the fields
  of \<open>rtype\<close> are the runtime's own and play no role.
\<close>

definition anyType :: gotype where
  "anyType = InterfaceT []"

definition typeOfAnyType :: gotype where
  "typeOfAnyType = PtrT (Named ''reflect.rtype'' (StructT []))"

text \<open>The loop \<open>for _, d := range ds { if d.DecodesType(typ) { ... } }\<close>: the first decoder that claims the type.\<close>

fun firstDecoder :: "ValueDecoder list \<Rightarrow> gotype \<Rightarrow> ValueDecoder option" where
  "firstDecoder [] typ = None"
| "firstDecoder (d # ds) typ = (if DecodesType d typ then Some d else firstDecoder ds typ)"

definition canImmediatelyDecode :: "runtime \<Rightarrow> parser \<Rightarrow> gotype \<Rightarrow> bool" where
  "canImmediatelyDecode rt p typ =
     (if typ = anyType then False
      else if firstDecoder (customDecoders p) typ \<noteq> None then True
      else if firstDecoder (builtinDecoders rt) typ \<noteq> None then True
      else isDecodable rt typ)"

text \<open>\<open>parser.decode\<close>.\<close>

definition decodeChain :: "runtime \<Rightarrow> parser \<Rightarrow> gotype \<Rightarrow> string \<Rightarrow> (error + govalue) option" where
  "decodeChain rt p typ value =
     (case firstDecoder (customDecoders p) typ of
        Some d \<Rightarrow> Some (Decode d value)
      | None \<Rightarrow>
          (case firstDecoder (builtinDecoders rt) typ of
             Some d \<Rightarrow> Some (Decode d value)
           | None \<Rightarrow> maybeDecodeableDecode rt typ value))"

definition decode :: "runtime \<Rightarrow> parser \<Rightarrow> gotype \<Rightarrow> string \<Rightarrow> error + govalue" where
  "decode rt p typ value =
     (case (if typ \<noteq> typeOfAnyType then decodeChain rt p typ value else None) of
        Some r \<Rightarrow> r
      | None \<Rightarrow>
          (case parserGetDecodeFunc rt p (typeKind typ) of
             None \<Rightarrow> Inl (ErrUnhandledType typ)
           | Some decodeFunc \<Rightarrow> decodeFunc value))"


section \<open>The decode engine\<close>

subsection \<open>Settability\<close>

text \<open>
  A \<open>reflect.Value\<close> is a content with flags: whether it is addressable and whether it was
  reached through an unexported field (sticky for a plain field, not sticky for an embedded
  one). \<open>Elem\<close>, \<open>Index\<close> and \<open>Field\<close> derive the flags as package \<open>reflect\<close> does.
\<close>

record flag =
  flagAddr :: bool
  flagStickyRO :: bool
  flagEmbedRO :: bool

definition flagRO :: "flag \<Rightarrow> bool" where
  "flagRO fl = (flagStickyRO fl \<or> flagEmbedRO fl)"

definition CanSet :: "flag \<Rightarrow> bool" where
  "CanSet fl = (flagAddr fl \<and> \<not> flagRO fl)"

text \<open>\<open>reflect.ValueOf(v)\<close>, also the flags of a value \<open>reflect.MakeSlice\<close> returns.\<close>

definition valueOfFlag :: flag where
  "valueOfFlag = \<lparr>flagAddr = False, flagStickyRO = False, flagEmbedRO = False\<rparr>"

definition elemFlagPtr :: "flag \<Rightarrow> flag" where
  "elemFlagPtr fl =
     \<lparr>flagAddr = True, flagStickyRO = flagStickyRO fl, flagEmbedRO = flagEmbedRO fl\<rparr>"

definition elemFlagInterface :: "flag \<Rightarrow> flag" where
  "elemFlagInterface fl = \<lparr>flagAddr = False, flagStickyRO = flagRO fl, flagEmbedRO = False\<rparr>"

definition indexFlagArray :: "flag \<Rightarrow> flag" where
  "indexFlagArray fl = \<lparr>flagAddr = flagAddr fl, flagStickyRO = flagRO fl, flagEmbedRO = False\<rparr>"

definition indexFlagSlice :: "flag \<Rightarrow> flag" where
  "indexFlagSlice fl = \<lparr>flagAddr = True, flagStickyRO = flagRO fl, flagEmbedRO = False\<rparr>"

definition fieldFlag :: "flag \<Rightarrow> StructField \<Rightarrow> flag" where
  "fieldFlag fl ft =
     \<lparr>flagAddr = flagAddr fl,
      flagStickyRO = (flagStickyRO fl \<or> (PkgPath ft \<noteq> [] \<and> \<not> Anonymous ft)),
      flagEmbedRO = (PkgPath ft \<noteq> [] \<and> Anonymous ft)\<rparr>"

subsection \<open>Lookup\<close>

fun lookupLoop :: "string \<Rightarrow> string list \<Rightarrow> string list \<Rightarrow> string list" where
  "lookupLoop prefix data [] = data"
| "lookupLoop prefix data (k # ks) =
     (if HasPrefix k prefix then
        (let suf = drop (length prefix) k
         in if prefix \<noteq> [] \<and> length suf > 0 \<and> \<not> HasPrefix suf ''['' then
              lookupLoop prefix data ks
            else (let pre = fst (unpackQueryKey suf)
                  in lookupLoop prefix (if pre \<in> set data then data else data @ [pre]) ks))
      else lookupLoop prefix data ks)"

text \<open>
  \<open>parser.lookup\<close>: the set of child tokens under a prefix, as a list without repetition.
  Go returns a map and ranges over it in an order it leaves open; the list, and with it the
  loops of \<open>parseForMap\<close> and \<open>parseForSlice\<close>, follows the order of the container.
  The order decides only which of several errors is met first.
\<close>

definition lookup :: "parser \<Rightarrow> string \<Rightarrow> string list" where
  "lookup p prefix = lookupLoop prefix [] (map fst (container p))"

fun lookupForSliceLoop :: "string \<Rightarrow> int list \<Rightarrow> string list \<Rightarrow> error + int list" where
  "lookupForSliceLoop prefix data [] = Inr data"
| "lookupForSliceLoop prefix data (k # ks) =
     (case Atoi k of
        Inl e \<Rightarrow> Inl (ErrInvalidParamKey (prefix @ ''['' @ k @ '']'') e)
      | Inr i \<Rightarrow> lookupForSliceLoop prefix (if i \<in> set data then data else data @ [i]) ks)"

definition lookupForSlice :: "parser \<Rightarrow> string \<Rightarrow> error + int list" where
  "lookupForSlice p prefix = lookupForSliceLoop prefix [] (lookup p prefix)"

subsection \<open>Scalars\<close>

type_synonym outcome = "(parser \<times> bool \<times> govalue) result"

text \<open>
  Every engine function returns the parser as it leaves it (only \<open>err\<close> changes), its
  result \<open>found\<close>, and the content of the location \<open>rv\<close> after the call.
\<close>

definition parseValue :: "runtime \<Rightarrow> parser \<Rightarrow> flag \<times> govalue \<Rightarrow> string \<Rightarrow> outcome" where
  "parseValue rt p rv parentNode =
     (if \<not> CanSet (fst rv) then Ret (p, False, snd rv)
      else (case get p parentNode of
              None \<Rightarrow> Ret (p, False, snd rv)
            | Some value \<Rightarrow>
                (case TypeOf (snd rv) of
                   None \<Rightarrow> Panic ''reflect: call of reflect.Value.Type on zero Value''
                 | Some typ \<Rightarrow>
                     (case decode rt p typ value of
                        Inl e \<Rightarrow>
                          Ret (p\<lparr>err := Some (ErrInvalidParamValue value parentNode e)\<rparr>, True, snd rv)
                      | Inr v \<Rightarrow>
                          (case TypeOf v of
                             None \<Rightarrow> Panic ''reflect: call of reflect.Value.Type on zero Value''
                           | Some t \<Rightarrow>
                               if t \<noteq> typ then
                                 (if CanConvert rt (snd rv) t then
                                    (case Convert rt v typ of
                                       None \<Rightarrow> Panic ''reflect.Value.Convert: value cannot be converted''
                                     | Some v' \<Rightarrow> Ret (p, True, v'))
                                  else
                                    Ret (p\<lparr>err := Some (ErrInvalidParamValue value parentNode
                                                          (ErrUnhandledType typ))\<rparr>, True, snd rv))
                               else Ret (p, True, v))))))"

subsection \<open>Maps\<close>

text \<open>
  \<open>Value.SetMapIndex\<close> on the map under construction. The key and the element must be
  assignable to the map's key and element type; for the primitive kinds the map check
  admits that is to have the very type. The zero Value as element deletes the key.
\<close>

definition SetMapIndex ::
  "gotype \<Rightarrow> gotype \<Rightarrow> (govalue \<times> govalue) list \<Rightarrow> govalue \<Rightarrow> govalue \<Rightarrow> (govalue \<times> govalue) list result"
where
  "SetMapIndex kt et m key elem =
     (if TypeOf key \<noteq> Some kt then Panic ''reflect.Value.SetMapIndex: key is not assignable''
      else if elem = VInvalid then Ret (filter (\<lambda>kv. fst kv \<noteq> key) m)
      else if TypeOf elem \<noteq> Some et then Panic ''reflect.Value.SetMapIndex: elem is not assignable''
      else Ret (if key \<in> fst ` set m then map (\<lambda>kv. if fst kv = key then (key, elem) else kv) m
                else m @ [(key, elem)]))"

text \<open>
  The loop of \<open>parseForMap\<close> over the matched tokens. The last component is the map built
  so far, or \<open>None\<close> when the loop left the function by \<open>return\<close>.
\<close>

fun mapLoop ::
  "runtime \<Rightarrow> parser \<Rightarrow> string \<Rightarrow> gotype \<Rightarrow> gotype \<Rightarrow> bool \<Rightarrow> (govalue \<times> govalue) list \<Rightarrow> string list
     \<Rightarrow> (parser \<times> bool \<times> (govalue \<times> govalue) list option) result"
where
  "mapLoop rt p parentNode kt et found m [] = Ret (p, found, Some m)"
| "mapLoop rt p parentNode kt et found m (k # ks) =
     (case decode rt p kt k of
        Inl e \<Rightarrow> Ret (p\<lparr>err := Some (ErrInvalidParamKey (keyName parentNode k) e)\<rparr>, found, None)
      | Inr reflectKey \<Rightarrow>
          (case get p (genNextParentNode parentNode k) of
             None \<Rightarrow> mapLoop rt p parentNode kt et found m ks
           | Some value \<Rightarrow>
               (case decode rt p et value of
                  Inl e \<Rightarrow>
                    Ret (p\<lparr>err := Some (ErrInvalidParamValue value (keyName parentNode k) e)\<rparr>,
                         True, None)
                | Inr reflectValue \<Rightarrow>
                    bind (SetMapIndex kt et m reflectKey reflectValue)
                      (\<lambda>m'. mapLoop rt p parentNode kt et True m' ks))))"

definition parseForMap :: "runtime \<Rightarrow> parser \<Rightarrow> flag \<times> govalue \<Rightarrow> string \<Rightarrow> outcome" where
  "parseForMap rt p rv parentNode =
     (if \<not> CanSet (fst rv) then Ret (p, False, snd rv)
      else (case snd rv of
              VMap t old \<Rightarrow>
                (case (typeKey t, typeElem t) of
                   (Some kt, Some et) \<Rightarrow>
                     if \<not> isAccessMapKeyType (typeKind kt) \<or> \<not> isAccessMapValueType (typeKind et)
                     then Ret (p\<lparr>err := Some (ErrInvalidMapKeyType [] t)\<rparr>, False, snd rv)
                     else (let matches = lookup p parentNode
                           in if length matches = 0 then Ret (p, False, snd rv)
                              else bind (mapLoop rt p parentNode kt et False [] matches)
                                     (\<lambda>(p', found, built).
                                        case built of
                                          None \<Rightarrow> Ret (p', found, snd rv)
                                        | Some mapReflect \<Rightarrow>
                                            Ret (p', found,
                                                 if found then VMap t (Some mapReflect) else snd rv)))
                 | _ \<Rightarrow> Panic ''reflect: Key of non-map type'')
            | _ \<Rightarrow> Panic ''reflect: Key of non-map type''))"

subsection \<open>Pointers, interfaces, arrays, slices and structs\<close>

type_synonym recursion = "parser \<Rightarrow> flag \<times> govalue \<Rightarrow> string \<Rightarrow> outcome"

text \<open>
  The functions below call \<open>p.parse\<close>; they take it as the argument \<open>rec\<close>, which
  \<open>parse\<close> instantiates with itself at the remaining budget.
\<close>

definition parseForPrt :: "recursion \<Rightarrow> parser \<Rightarrow> flag \<times> govalue \<Rightarrow> string \<Rightarrow> outcome" where
  "parseForPrt rec p rv parentNode =
     (case snd rv of
        VPtr t None \<Rightarrow>
          if CanSet (fst rv) then
            (let matches = lookup p parentNode
             in if length matches = 0 then Ret (p, False, snd rv)
                else (case typeElem t of
                        None \<Rightarrow> Panic ''reflect: Elem of invalid type''
                      | Some e \<Rightarrow>
                          bind (rec p (elemFlagPtr (fst rv), zero e) parentNode)
                            (\<lambda>(p', found, x'). Ret (p', found, VPtr t (Some x')))))
          else Ret (p, False, snd rv)
      | VPtr t (Some x) \<Rightarrow>
          bind (rec p (elemFlagPtr (fst rv), x) parentNode)
            (\<lambda>(p', found, x'). Ret (p', found, VPtr t (Some x')))
      | _ \<Rightarrow> Panic ''reflect: call of reflect.Value.IsNil on a value of another kind'')"

text \<open>The case \<open>reflect.Interface\<close> of \<open>parse\<close>: \<open>rv.Elem()\<close> of a nil interface is the zero Value.\<close>

definition parseInterface :: "recursion \<Rightarrow> parser \<Rightarrow> flag \<times> govalue \<Rightarrow> string \<Rightarrow> outcome" where
  "parseInterface rec p rv parentNode =
     (case snd rv of
        VInterface t None \<Rightarrow>
          bind (rec p (valueOfFlag, VInvalid) parentNode) (\<lambda>(p', found, x'). Ret (p', found, snd rv))
      | VInterface t (Some x) \<Rightarrow>
          bind (rec p (elemFlagInterface (fst rv), x) parentNode)
            (\<lambda>(p', found, x'). Ret (p', found, VInterface t (Some x')))
      | _ \<Rightarrow> Panic ''reflect: call of reflect.Value.Elem on a value of another kind'')"

text \<open>The case \<open>reflect.Array\<close> of \<open>parse\<close>: \<open>for i := 0; i < rv.Cap(); i++\<close>.\<close>

fun arrayLoop ::
  "recursion \<Rightarrow> parser \<Rightarrow> flag \<Rightarrow> string \<Rightarrow> bool \<Rightarrow> nat \<Rightarrow> govalue list
     \<Rightarrow> (parser \<times> bool \<times> govalue list) result"
where
  "arrayLoop rec p fl parentNode found i [] = Ret (p, found, [])"
| "arrayLoop rec p fl parentNode found i (x # xs) =
     bind (rec p (indexFlagArray fl, x) (genNextParentNode parentNode (Itoa (int i))))
       (\<lambda>(p', f, x').
          bind (arrayLoop rec p' fl parentNode (f \<or> found) (Suc i) xs)
            (\<lambda>(p'', found', xs'). Ret (p'', found', x' # xs')))"

definition parseArray :: "recursion \<Rightarrow> parser \<Rightarrow> flag \<times> govalue \<Rightarrow> string \<Rightarrow> outcome" where
  "parseArray rec p rv parentNode =
     (case snd rv of
        VArray t xs \<Rightarrow>
          bind (arrayLoop rec p (fst rv) parentNode False 0 xs)
            (\<lambda>(p', found, xs'). Ret (p', found, VArray t xs'))
      | _ \<Rightarrow> Panic ''reflect: call of reflect.Value.Cap on a value of another kind'')"

text \<open>
  \<open>i+1\<close> on the 64-bit \<open>int\<close> wraps. The model allocates a slice of any length; the Go
  runtime gives up on one that exceeds the memory.
\<close>

definition wrap64 :: "int \<Rightarrow> int" where
  "wrap64 x = (x + 2 ^ 63) mod 2 ^ 64 - 2 ^ 63"

fun maxCapLoop :: "int \<Rightarrow> int list \<Rightarrow> int" where
  "maxCapLoop maxCap [] = maxCap"
| "maxCapLoop maxCap (i # matches) =
     maxCapLoop (if wrap64 (i + 1) > maxCap then wrap64 (i + 1) else maxCap) matches"

fun sliceLoop ::
  "recursion \<Rightarrow> parser \<Rightarrow> string \<Rightarrow> bool \<Rightarrow> govalue list \<Rightarrow> int list
     \<Rightarrow> (parser \<times> bool \<times> govalue list) result"
where
  "sliceLoop rec p parentNode found sliceVal [] = Ret (p, found, sliceVal)"
| "sliceLoop rec p parentNode found sliceVal (i # matches) =
     (if i < 0 \<or> i \<ge> int (length sliceVal) then Panic ''reflect: slice index out of range''
      else bind (rec p (indexFlagSlice valueOfFlag, sliceVal ! nat i)
                   (genNextParentNode parentNode (Itoa i)))
             (\<lambda>(p', f, x').
                sliceLoop rec p' parentNode (f \<or> found) (sliceVal[nat i := x']) matches))"

definition parseForSlice :: "recursion \<Rightarrow> parser \<Rightarrow> flag \<times> govalue \<Rightarrow> string \<Rightarrow> outcome" where
  "parseForSlice rec p rv parentNode =
     (if \<not> CanSet (fst rv) then Ret (p, False, snd rv)
      else (case lookupForSlice p parentNode of
              Inl e \<Rightarrow> Ret (p\<lparr>err := Some e\<rparr>, False, snd rv)
            | Inr matches \<Rightarrow>
                if length matches = 0 then Ret (p, False, snd rv)
                else (case snd rv of
                        VSlice t old \<Rightarrow>
                          (case typeElem t of
                             None \<Rightarrow> Panic ''reflect.MakeSlice of non-slice type''
                           | Some e \<Rightarrow>
                               (let maxCap = nat (maxCapLoop 0 matches);
                                    made = replicate maxCap (zero e);
                                    sliceVal = (case old of
                                                  None \<Rightarrow> made
                                                | Some xs \<Rightarrow> take maxCap xs @ drop (length xs) made)
                                in bind (sliceLoop rec p parentNode False sliceVal matches)
                                     (\<lambda>(p', found, xs').
                                        Ret (p', found,
                                             if found then VSlice t (Some xs') else snd rv))))
                      | _ \<Rightarrow> Panic ''reflect.MakeSlice of non-slice type'')))"

text \<open>
  The loop of \<open>parseForStruct\<close> over the fields in declaration order, each with the
  content of the field. A \<open>return\<close> inside the loop leaves the remaining fields as they are.
\<close>

definition setMissing :: "parser \<Rightarrow> string \<Rightarrow> parser" where
  "setMissing p nodeName =
     (if err p = None then p\<lparr>err := Some (ErrMissingRequiredParam nodeName)\<rparr> else p)"

fun structLoop ::
  "recursion \<Rightarrow> parser \<Rightarrow> flag \<Rightarrow> string \<Rightarrow> bool \<Rightarrow> (StructField \<times> govalue) list
     \<Rightarrow> (parser \<times> bool \<times> govalue list) result"
where
  "structLoop rec p fl parentNode found [] = Ret (p, found, [])"
| "structLoop rec p fl parentNode found ((ft, fv) # rest) =
     (if Anonymous ft \<and> Kind fv = Struct then
        bind (rec p (fieldFlag fl ft, fv) parentNode)
          (\<lambda>(p', f, fv').
             bind (structLoop rec p' fl parentNode (f \<or> found) rest)
               (\<lambda>(p'', found', fvs'). Ret (p'', found', fv' # fvs')))
      else if QueryTag ft = ''-'' then
        bind (structLoop rec p fl parentNode found rest)
          (\<lambda>(p'', found', fvs'). Ret (p'', found', fv # fvs'))
      else
        (let t = newTag (QueryTag ft);
             name = (if getName t = [] then Name ft else getName t);
             nodeName = genNextParentNode parentNode name;
             required = contains t ''required''
         in if required \<and> length (lookup p nodeName) = 0 then
              Ret (setMissing p nodeName, found, fv # map snd rest)
            else
              bind (rec p (fieldFlag fl ft, fv) nodeName)
                (\<lambda>(p', f, fv').
                   if required \<and> \<not> (f \<or> found) then
                     Ret (setMissing p' nodeName, f \<or> found, fv' # map snd rest)
                   else
                     bind (structLoop rec p' fl parentNode (f \<or> found) rest)
                       (\<lambda>(p'', found', fvs'). Ret (p'', found', fv' # fvs')))))"

definition parseForStruct :: "recursion \<Rightarrow> parser \<Rightarrow> flag \<times> govalue \<Rightarrow> string \<Rightarrow> outcome" where
  "parseForStruct rec p rv parentNode =
     (case snd rv of
        VStruct t fvs \<Rightarrow>
          (case typeFields t of
             None \<Rightarrow> Panic ''reflect: NumField of non-struct type''
           | Some fts \<Rightarrow>
               if length fts \<noteq> length fvs then Panic ''reflect: Field index out of range''
               else bind (structLoop rec p (fst rv) parentNode False (zip fts fvs))
                      (\<lambda>(p', found, fvs'). Ret (p', found, VStruct t fvs')))
      | _ \<Rightarrow> Panic ''reflect: call of reflect.Value.NumField on a value of another kind'')"

subsection \<open>\<open>parse\<close>\<close>

definition parseStep :: "runtime \<Rightarrow> recursion \<Rightarrow> parser \<Rightarrow> flag \<times> govalue \<Rightarrow> string \<Rightarrow> outcome" where
  "parseStep rt rec p rv parentNode =
     (if err p \<noteq> None then Ret (p, False, snd rv)
      else (let kind = Kind (snd rv)
            in if kind \<noteq> Invalid \<and>
                  (case TypeOf (snd rv) of None \<Rightarrow> False | Some t \<Rightarrow> canImmediatelyDecode rt p t)
               then parseValue rt p rv parentNode
               else (case kind of
                       Pointer \<Rightarrow> parseForPrt rec p rv parentNode
                     | Interface \<Rightarrow> parseInterface rec p rv parentNode
                     | Map \<Rightarrow> parseForMap rt p rv parentNode
                     | Array \<Rightarrow> parseArray rec p rv parentNode
                     | Slice \<Rightarrow> parseForSlice rec p rv parentNode
                     | Struct \<Rightarrow> parseForStruct rec p rv parentNode
                     | _ \<Rightarrow> parseValue rt p rv parentNode)))"

text \<open>
  \<open>parser.parse\<close>, with a budget for the depth of its recursion: each nested call of
  \<open>parse\<close> takes one unit.
\<close>

primrec parse :: "runtime \<Rightarrow> nat \<Rightarrow> recursion" where
  "parse rt 0 = (\<lambda>p rv parentNode. OutOfFuel)"
| "parse rt (Suc n) = parseStep rt (parse rt n)"

subsection \<open>Entry points\<close>

text \<open>
  \<open>Unmarshal\<close> and \<open>UnmarshalValues\<close> return the error, the destination \<open>v\<close> as the call
  leaves it, and the parser. \<open>reflect.ValueOf\<close> of a nil \<open>interface{}\<close> is \<open>VInvalid\<close>. A
  released container (\<open>nil\<close>) is the empty one.
\<close>

definition Unmarshal ::
  "runtime \<Rightarrow> nat \<Rightarrow> parser \<Rightarrow> string \<Rightarrow> govalue \<Rightarrow> (error option \<times> govalue \<times> parser) result"
where
  "Unmarshal rt n p0 data v =
     (let p = resetQueryEncoder rt (p0\<lparr>container := [], err := None\<rparr>)
      in if Kind v \<noteq> Pointer \<or> IsNil v then Ret (Some ErrInvalidUnmarshalError, v, p)
         else bind (init p data)
                (\<lambda>(p1, e).
                   case e of
                     Some e' \<Rightarrow> Ret (Some e', v, p1)
                   | None \<Rightarrow>
                       bind (parse rt n p1 (valueOfFlag, v) [])
                         (\<lambda>(p2, found, v'). Ret (err p2, v', p2\<lparr>container := []\<rparr>))))"

definition UnmarshalValues ::
  "runtime \<Rightarrow> nat \<Rightarrow> parser \<Rightarrow> (string \<times> string list) list \<Rightarrow> govalue
     \<Rightarrow> (error option \<times> govalue \<times> parser) result"
where
  "UnmarshalValues rt n p0 values v =
     (let p = resetQueryEncoder rt (p0\<lparr>container := [], err := None\<rparr>)
      in if Kind v \<noteq> Pointer \<or> IsNil v then Ret (Some ErrInvalidUnmarshalError, v, p)
         else bind (initValues p values)
                (\<lambda>p1. bind (parse rt n p1 (valueOfFlag, v) [])
                         (\<lambda>(p2, found, v'). Ret (err p2, v', p2\<lparr>container := []\<rparr>))))"


section \<open>Example configurations\<close>

text \<open>
  An escaping strategy that leaves every text unchanged, and one that rejects every text
  with a percent sign, returning the empty string with the error as \<open>url.QueryUnescape\<close>
  does on a malformed escape.
\<close>

definition plainEncoder :: QueryEncoder where
  "plainEncoder = \<lparr>Escape = (\<lambda>s. s), UnEscape = (\<lambda>s. (s, None))\<rparr>"

definition strictEncoder :: QueryEncoder where
  "strictEncoder =
     \<lparr>Escape = (\<lambda>s. s),
      UnEscape = (\<lambda>s. if CHR ''%'' \<in> set s then ([], Some (ErrorString ''invalid URL escape''))
                      else (s, None))\<rparr>"

text \<open>
  A runtime in which no type converts from \<open>time.Time\<close>, no type implements \<open>Decodable\<close>
  and no conversion exists: a program that declares no method and uses no time value.
\<close>

definition bareRuntime :: runtime where
  "bareRuntime =
     \<lparr>ConvertibleFromTime = (\<lambda>t. False),
      ParseTimeRFC3339 = (\<lambda>s. Inl (ErrorString ''parsing time'')),
      Implements = (\<lambda>t. False),
      UnmarshalQueryParam = (\<lambda>d s. (d, None)),
      CanConvert = (\<lambda>v t. False),
      Convert = (\<lambda>v t. None),
      ParseFloat = (\<lambda>s b. Inl (NumError ''ParseFloat'' s ''invalid syntax'')),
      getQueryEncoder = plainEncoder\<rparr>"

text \<open>A custom decoder that claims every type and returns the text as a string.\<close>

definition claimAll :: ValueDecoder where
  "claimAll = \<lparr>DecodesType = (\<lambda>t. True), Decode = (\<lambda>s. Inr (VString (Prim String) s))\<rparr>"

text \<open>
  Conditions on a runtime under which the examples run as in a program that declares no
  method on the types involved: no builtin decoder claims the type and neither the type
  nor the pointer to it implements \<open>Decodable\<close>; the default escaping strategy returns a
  text unchanged.
\<close>

definition unclaimed :: "runtime \<Rightarrow> gotype \<Rightarrow> bool" where
  "unclaimed rt t =
     (\<not> ConvertibleFromTime rt t \<and> \<not> Implements rt t \<and> \<not> Implements rt (PtrT t))"

definition passes :: "runtime \<Rightarrow> string \<Rightarrow> bool" where
  "passes rt s = (UnEscape (getQueryEncoder rt) s = (s, None))"

text \<open>
  Types of the examples: \<open>[5]int\<close>, \<open>[]int\<close>,
  \<open>struct { Tags []int `query:"tags"` }\<close>,
  \<open>struct { A int `query:"a"`; B string `query:"b,required"` }\<close> and the same
  fields in the order \<open>B\<close>, \<open>A\<close>,
  \<open>struct { Params map[string]struct{} }\<close>,
  \<open>struct { Inner `query:"-"` }\<close> with \<open>type Inner struct { X int }\<close>, and
  \<open>struct { Description string `query:"desc"`; Height int `query:"-"` }\<close>; and the flags
  of a settable location.
\<close>

definition intArray5 :: gotype where
  "intArray5 = ArrayT 5 (Prim IntK)"

definition intSlice :: gotype where
  "intSlice = SliceT (Prim IntK)"

definition tagsStruct :: gotype where
  "tagsStruct = StructT [StructField ''Tags'' [] intSlice ''tags'' False]"

definition fieldA :: StructField where
  "fieldA = StructField ''A'' [] (Prim IntK) ''a'' False"

definition fieldB :: StructField where
  "fieldB = StructField ''B'' [] (Prim String) ''b,required'' False"

definition abStruct :: gotype where
  "abStruct = StructT [fieldA, fieldB]"

definition baStruct :: gotype where
  "baStruct = StructT [fieldB, fieldA]"

definition badMap :: gotype where
  "badMap = MapT (Prim String) (StructT [])"

definition paramsStruct :: gotype where
  "paramsStruct = StructT [StructField ''Params'' [] badMap [] False]"

definition innerStruct :: gotype where
  "innerStruct = Named ''Inner'' (StructT [StructField ''X'' [] (Prim IntK) [] False])"

definition outerStruct :: gotype where
  "outerStruct = StructT [StructField ''Inner'' [] innerStruct ''-'' True]"

definition childStruct :: gotype where
  "childStruct =
     StructT [StructField ''Description'' [] (Prim String) ''desc'' False,
              StructField ''Height'' [] (Prim IntK) ''-'' False]"

definition settable :: flag where
  "settable = \<lparr>flagAddr = True, flagStickyRO = False, flagEmbedRO = False\<rparr>"

section \<open>Evaluation\<close>

text \<open>The defining equations that running the engine on a concrete input unfolds.\<close>

lemmas engine_defs =
  Unmarshal_def resetQueryEncoder_def NewParser_def WithQueryEncoder_def
  Kind_def typeKind_def typeElem_def typeKey_def typeFields_def
  init_def SymbolAnd_def SymbolEqual_def SplitN2_def repackKey_def tKeyOf_def
  parseStep_def canImmediatelyDecode_def anyType_def builtinDecoders_def TimeDecoder_def
  isDecodable_def parseForPrt_def parseInterface_def parseArray_def parseForSlice_def
  parseForStruct_def parseForMap_def parseValue_def
  valueOfFlag_def elemFlagPtr_def elemFlagInterface_def indexFlagArray_def indexFlagSlice_def
  fieldFlag_def CanSet_def flagRO_def
  genNextParentNode_def keyName_def unpackQueryKey_def HasPrefix_def
  lookup_def lookupForSlice_def Atoi_def wrap64_def
  isAccessMapKeyType_def isAccessMapValueType_def primitiveKinds_def
  newTag_def getName_def contains_def setMissing_def
  Itoa_def natDigits.simps digitChar_def get_def
  decode_def typeOfAnyType_def decodeChain_def maybeDecodeableDecode_def
  parserGetDecodeFunc_def getDecodeFunc_def intDecode_def baseIntDecode_def stringDecode_def
  ParseInt_def bitsOf_def digitVal_def
  zero_def zeroPrim_def Let_def

lemmas example_defs =
  unclaimed_def passes_def intArray5_def intSlice_def tagsStruct_def fieldA_def fieldB_def
  abStruct_def baStruct_def badMap_def paramsStruct_def innerStruct_def outerStruct_def childStruct_def
  settable_def bareRuntime_def plainEncoder_def

lemma replicate_2: "replicate 2 x = [x, x]"
  by (simp add: numeral_eq_Suc)

lemma replicate_4: "replicate 4 x = [x, x, x, x]"
  by (simp add: numeral_eq_Suc)

lemma replicate_5: "replicate 5 x = [x, x, x, x, x]"
  by (simp add: numeral_eq_Suc)

lemma bind_Ret_iff: "bind r f = Ret y \<longleftrightarrow> (\<exists>x. r = Ret x \<and> f x = Ret y)"
  by (cases r) auto

section \<open>The entry points reject a destination that is no non-nil pointer\<close>

text \<open>
  Claim C8. For every input, every parser and every budget, \<open>Unmarshal\<close> and
  \<open>UnmarshalValues\<close> called with a destination that is not of kind pointer, or is a nil
  pointer, return \<open>ErrInvalidUnmarshalError\<close>; the destination is returned as it was, and
  the container of the parser is the empty one the call started with: no key of the input
  was read.
\<close>

theorem Unmarshal_rejects_non_pointer:
  assumes "Kind v \<noteq> Pointer \<or> IsNil v"
  shows "Unmarshal rt n p data v =
           Ret (Some ErrInvalidUnmarshalError, v,
                resetQueryEncoder rt (p\<lparr>container := [], err := None\<rparr>))
         \<and> UnmarshalValues rt n p urlValues v =
           Ret (Some ErrInvalidUnmarshalError, v,
                resetQueryEncoder rt (p\<lparr>container := [], err := None\<rparr>))
         \<and> container (resetQueryEncoder rt (p\<lparr>container := [], err := None\<rparr>)) = []"
  using assms
  by (simp add: Unmarshal_def UnmarshalValues_def Let_def resetQueryEncoder_def
      split: option.splits)

theorem Unmarshal_rejects_non_pointer_witness:
  "Unmarshal bareRuntime 0 (NewParser []) ''Id=1&b=a'' (VPtr (PtrT (Prim IntK)) None) =
     Ret (Some ErrInvalidUnmarshalError, VPtr (PtrT (Prim IntK)) None,
          resetQueryEncoder bareRuntime ((NewParser [])\<lparr>container := [], err := None\<rparr>))
   \<and> UnmarshalValues bareRuntime 0 (NewParser []) [(''Id'', [''1''])] (VInt (Prim IntK) 7) =
     Ret (Some ErrInvalidUnmarshalError, VInt (Prim IntK) 7,
          resetQueryEncoder bareRuntime ((NewParser [])\<lparr>container := [], err := None\<rparr>))"
  using Unmarshal_rejects_non_pointer
          [where v = "VPtr (PtrT (Prim IntK)) None" and rt = bareRuntime and n = 0
             and p = "NewParser []" and data = "''Id=1&b=a''"]
        Unmarshal_rejects_non_pointer
          [where v = "VInt (Prim IntK) 7" and rt = bareRuntime and n = 0
             and p = "NewParser []" and urlValues = "[(''Id'', [''1''])]"]
  by (simp add: Kind_def typeKind_def)

section \<open>The pre-split path keeps the first value of a plain key\<close>

text \<open>
  Claim C10. In \<open>initValues\<close>, a key that does not end in \<open>[]\<close> and comes with the
  values \<open>v, vs\<close> stores \<open>v\<close> under the key and nothing else: the loop goes on exactly as
  it would had the key come with the single value \<open>v\<close>, whatever \<open>vs\<close> holds.
\<close>

theorem initValues_keeps_first_value:
  assumes "drop (length key - 2) key \<noteq> ''[]''"
  shows "initValuesLoop c ((key, v # vs) # urlValues) = initValuesLoop (cset c key v) urlValues
         \<and> initValuesLoop c ((key, v # vs) # urlValues) = initValuesLoop c ((key, [v]) # urlValues)
         \<and> map_of (cset c key v) key = Some v"
proof -
  have stored: "map_of (cset c' key v) key = Some v" for c'
    by (induction c' key v rule: cset.induct) auto
  show ?thesis using assms stored by (simp add: Let_def)
qed

theorem initValues_keeps_first_value_witness:
  "initValues (NewParser []) [(''a'', [''1'', ''2'', ''3''])] =
     Ret ((NewParser [])\<lparr>container := [(''a'', ''1'')]\<rparr>)"
  using initValues_keeps_first_value
          [where key = "''a''" and c = "[]" and v = "''1''" and vs = "[''2'', ''3'']"
             and urlValues = "[]"]
  by (simp add: initValues_def NewParser_def)

section \<open>The error of a value that fails to unescape\<close>

text \<open>
  Claim C7. The claim expects \<open>ErrInvalidParamValue\<close> to carry the key path and the
  offending value. On the input \<open>a=%zz\<close>, with an escaping strategy that rejects \<open>%zz\<close>,
  \<open>init\<close> returns \<open>ErrInvalidParamValue\<close> whose \<open>val\<close> is the key \<open>a\<close>: the source builds
  the error with \<open>val: ns[0]\<close>.
\<close>

theorem init_value_error_carries_key_as_value:
  "Unmarshal bareRuntime n (NewParser [WithQueryEncoder strictEncoder]) ''a=%zz''
     (VPtr (PtrT (Prim String)) (Some (VString (Prim String) []))) =
   Ret (Some (ErrInvalidParamValue ''a'' ''a'' (ErrorString ''invalid URL escape'')),
        VPtr (PtrT (Prim String)) (Some (VString (Prim String) [])),
        (NewParser [WithQueryEncoder strictEncoder])\<lparr>queryEncoder := Some strictEncoder\<rparr>)"
  by (simp add: Unmarshal_def NewParser_def WithQueryEncoder_def resetQueryEncoder_def init_def
      SymbolAnd_def SymbolEqual_def SplitN2_def strictEncoder_def Kind_def typeKind_def)

theorem init_value_error_carries_key_as_value_witness:
  "(case Unmarshal bareRuntime 0 (NewParser [WithQueryEncoder strictEncoder]) ''a=%zz''
           (VPtr (PtrT (Prim String)) (Some (VString (Prim String) []))) of
      Ret (e, v, p) \<Rightarrow> e = Some (ErrInvalidParamValue ''a'' ''a'' (ErrorString ''invalid URL escape''))
    | _ \<Rightarrow> False)"
  using init_value_error_carries_key_as_value [of 0] by simp

section \<open>Precedence in the decoder resolution chain\<close>

text \<open>
  For every type other than the one \<open>decode\<close> compares with, the first registered custom
  decoder that claims the type determines the result, whatever the builtin decoder and the
  \<open>Decodable\<close> protocol would do.
\<close>

lemma firstDecoder_split:
  assumes "\<forall>d' \<in> set before. \<not> DecodesType d' typ" and "DecodesType d typ"
  shows "firstDecoder (before @ d # after) typ = Some d"
  using assms by (induction before) auto

lemma decode_custom_decoder_first:
  assumes "typ \<noteq> typeOfAnyType"
    and "customDecoders p = before @ d # after"
    and "\<forall>d' \<in> set before. \<not> DecodesType d' typ" and "DecodesType d typ"
  shows "decode rt p typ value = Decode d value"
  using assms firstDecoder_split [of before "typ" d after]
  by (simp add: decode_def decodeChain_def)

lemma decode_custom_decoder_first_witness:
  "decode bareRuntime (RegisterValueDecoder (NewParser []) (Some claimAll)) (Prim IntK) ''x'' =
     Inr (VString (Prim String) ''x'')"
  using decode_custom_decoder_first
          [of "Prim IntK" "RegisterValueDecoder (NewParser []) (Some claimAll)" "[]" claimAll "[]"
             bareRuntime "''x''"]
  by (simp add: RegisterValueDecoder_def NewParser_def claimAll_def typeOfAnyType_def)

text \<open>
  Claim C5. The claim is about every destination type. For the type \<open>*reflect.rtype\<close>,
  which \<open>decode\<close> excludes by comparing with \<open>reflect.TypeOf(anyType)\<close>, a registered
  custom decoder that claims the type is not consulted: the result is \<open>ErrUnhandledType\<close>
  from the kind table.
\<close>

theorem decode_ignores_custom_decoder_for_descriptor_type:
  "DecodesType claimAll typeOfAnyType
   \<and> customDecoders (RegisterValueDecoder (NewParser []) (Some claimAll)) = [claimAll]
   \<and> decode bareRuntime (RegisterValueDecoder (NewParser []) (Some claimAll)) typeOfAnyType ''x'' =
       Inl (ErrUnhandledType typeOfAnyType)"
  by (simp add: claimAll_def RegisterValueDecoder_def NewParser_def decode_def
      parserGetDecodeFunc_def getDecodeFunc_def typeKind_def typeOfAnyType_def)

theorem decode_ignores_custom_decoder_for_descriptor_type_witness:
  "decode bareRuntime (RegisterValueDecoder (NewParser []) (Some claimAll)) typeOfAnyType ''x'' \<noteq>
     Decode claimAll ''x''"
  using decode_ignores_custom_decoder_for_descriptor_type by (simp add: claimAll_def)


section \<open>The first error is the error of the call\<close>

lemma parse_with_error:
  assumes "err p = Some e"
  shows "parse rt (Suc n) p rv parentNode = Ret (p, False, snd rv)"
  using assms by (simp add: parseStep_def)

lemma setMissing_with_error: "err p = Some e \<Longrightarrow> setMissing p nodeName = p"
  by (simp add: setMissing_def)

lemma structLoop_with_error:
  assumes "\<And>q rv k. err q \<noteq> None \<Longrightarrow> rec q rv k = Ret (q, False, snd rv)"
    and "err p = Some e"
  shows "structLoop rec p fl parentNode found rest = Ret (p, found, map snd rest)"
  using assms(2)
proof (induction rest)
  case Nil
  then show ?case by simp
next
  case (Cons a rest)
  obtain ft fv where a: "a = (ft, fv)" by (cases a)
  have r: "rec p rv k = Ret (p, False, snd rv)" for rv k
    using assms(1) [of p rv k] Cons.prems by simp
  show ?case
    using Cons a r by (simp add: Let_def setMissing_with_error)
qed

lemma arrayLoop_with_error:
  assumes "\<And>q rv k. err q \<noteq> None \<Longrightarrow> rec q rv k = Ret (q, False, snd rv)"
    and "err p = Some e"
  shows "arrayLoop rec p fl parentNode found i xs = Ret (p, found, xs)"
  using assms(2)
proof (induction xs arbitrary: i)
  case Nil
  then show ?case by simp
next
  case (Cons x xs)
  have r: "rec p rv k = Ret (p, False, snd rv)" for rv k
    using assms(1) [of p rv k] Cons.prems by simp
  show ?case using Cons r by simp
qed

lemma structLoop_field_error:
  assumes sticky: "\<And>q rv k. err q \<noteq> None \<Longrightarrow> rec q rv k = Ret (q, False, snd rv)"
    and plain: "\<not> (Anonymous ft \<and> Kind fv = Struct)" "QueryTag ft \<noteq> ''-''"
    and reached: "\<not> (contains (newTag (QueryTag ft)) ''required'' \<and> lookup p nodeName = [])"
    and node: "nodeName = genNextParentNode parentNode
                 (if getName (newTag (QueryTag ft)) = [] then Name ft
                  else getName (newTag (QueryTag ft)))"
    and field: "rec p (fieldFlag fl ft, fv) nodeName = Ret (p', f, fv')"
    and failed: "err p' = Some e"
  shows "structLoop rec p fl parentNode found ((ft, fv) # rest) =
           Ret (p', f \<or> found, fv' # map snd rest)"
  using plain node reached field failed structLoop_with_error [OF sticky failed]
  by (auto simp: Let_def setMissing_with_error)

text \<open>
  Claim C6. Once an error is recorded, \<open>parse\<close> returns at once with the parser and the
  location unchanged and \<open>found = false\<close>, so no later error replaces the first one; the
  loops over the fields of a struct and over the elements of an array, entered with an error
  recorded, decode nothing and leave every field and element as it is; when decoding a
  field records an error, the struct loop ends with exactly that error, the fields after it
  untouched; and a call of \<open>Unmarshal\<close> that passes the destination check and returns,
  returns either the error of \<open>init\<close> or the one error recorded at the end of the
  traversal.
\<close>

theorem first_error_is_sticky:
  "(err p = Some e \<longrightarrow>
      parse rt (Suc n) p rv parentNode = Ret (p, False, snd rv)
      \<and> structLoop (parse rt (Suc n)) p fl parentNode found rest = Ret (p, found, map snd rest)
      \<and> arrayLoop (parse rt (Suc n)) p fl parentNode found i xs = Ret (p, found, xs))
   \<and> (\<not> (Anonymous ft \<and> Kind fv = Struct) \<and> QueryTag ft \<noteq> ''-''
       \<and> nodeName = genNextParentNode parentNode
            (if getName (newTag (QueryTag ft)) = [] then Name ft else getName (newTag (QueryTag ft)))
       \<and> \<not> (contains (newTag (QueryTag ft)) ''required'' \<and> lookup q nodeName = [])
       \<and> parse rt (Suc n) q (fieldFlag fl ft, fv) nodeName = Ret (q', f, fv')
       \<and> err q' = Some e \<longrightarrow>
      structLoop (parse rt (Suc n)) q fl parentNode found ((ft, fv) # rest) =
        Ret (q', f \<or> found, fv' # map snd rest))
   \<and> (Unmarshal rt m p0 data v = Ret (r, v', p1) \<and> Kind v = Pointer \<and> \<not> IsNil v \<longrightarrow>
        (\<exists>p2. init (resetQueryEncoder rt (p0\<lparr>container := [], err := None\<rparr>)) data = Ret (p2, r)
               \<and> r \<noteq> None \<and> v' = v)
        \<or> (\<exists>p2 p3 found'.
              init (resetQueryEncoder rt (p0\<lparr>container := [], err := None\<rparr>)) data = Ret (p2, None)
              \<and> parse rt m p2 (valueOfFlag, v) [] = Ret (p3, found', v') \<and> r = err p3))"
proof (intro conjI impI)
  assume "err p = Some e"
  then show "parse rt (Suc n) p rv parentNode = Ret (p, False, snd rv)"
    by (rule parse_with_error)
next
  assume e: "err p = Some e"
  have sticky: "parse rt (Suc n) q rv k = Ret (q, False, snd rv)" if "err q \<noteq> None" for q rv k
    using that parse_with_error [of q _ rt n rv k] by auto
  show "structLoop (parse rt (Suc n)) p fl parentNode found rest = Ret (p, found, map snd rest)"
    using structLoop_with_error [of "parse rt (Suc n)", OF sticky e] by simp
  show "arrayLoop (parse rt (Suc n)) p fl parentNode found i xs = Ret (p, found, xs)"
    using arrayLoop_with_error [of "parse rt (Suc n)", OF sticky e] by simp
next
  assume a: "\<not> (Anonymous ft \<and> Kind fv = Struct) \<and> QueryTag ft \<noteq> ''-''
       \<and> nodeName = genNextParentNode parentNode
            (if getName (newTag (QueryTag ft)) = [] then Name ft else getName (newTag (QueryTag ft)))
       \<and> \<not> (contains (newTag (QueryTag ft)) ''required'' \<and> lookup q nodeName = [])
       \<and> parse rt (Suc n) q (fieldFlag fl ft, fv) nodeName = Ret (q', f, fv')
       \<and> err q' = Some e"
  have sticky: "parse rt (Suc n) q rv k = Ret (q, False, snd rv)" if "err q \<noteq> None" for q rv k
    using that parse_with_error [of q _ rt n rv k] by auto
  show "structLoop (parse rt (Suc n)) q fl parentNode found ((ft, fv) # rest) =
          Ret (q', f \<or> found, fv' # map snd rest)"
    using a by (intro structLoop_field_error [of "parse rt (Suc n)", OF sticky]) auto
next
  define P where "P = resetQueryEncoder rt (p0\<lparr>container := [], err := None\<rparr>)"
  assume "Unmarshal rt m p0 data v = Ret (r, v', p1) \<and> Kind v = Pointer \<and> \<not> IsNil v"
  then have "Unmarshal rt m p0 data v = Ret (r, v', p1)" and "Kind v = Pointer" and "\<not> IsNil v"
    by simp_all
  then have "bind (init P data)
               (\<lambda>(p2, e0).
                  case e0 of
                    Some e' \<Rightarrow> Ret (Some e', v, p2)
                  | None \<Rightarrow>
                      bind (parse rt m p2 (valueOfFlag, v) [])
                        (\<lambda>(p3, found', v''). Ret (err p3, v'', p3\<lparr>container := []\<rparr>))) =
             Ret (r, v', p1)"
    by (simp add: Unmarshal_def Let_def P_def)
  then obtain p2 e0 where i: "init P data = Ret (p2, e0)"
    and k: "(case e0 of
               Some e' \<Rightarrow> Ret (Some e', v, p2)
             | None \<Rightarrow>
                 bind (parse rt m p2 (valueOfFlag, v) [])
                   (\<lambda>(p3, found', v''). Ret (err p3, v'', p3\<lparr>container := []\<rparr>))) =
            Ret (r, v', p1)"
    by (auto simp: bind_Ret_iff)
  show "(\<exists>p2. init (resetQueryEncoder rt (p0\<lparr>container := [], err := None\<rparr>)) data = Ret (p2, r)
               \<and> r \<noteq> None \<and> v' = v)
        \<or> (\<exists>p2 p3 found'.
              init (resetQueryEncoder rt (p0\<lparr>container := [], err := None\<rparr>)) data = Ret (p2, None)
              \<and> parse rt m p2 (valueOfFlag, v) [] = Ret (p3, found', v') \<and> r = err p3)"
  proof (cases e0)
    case None
    with k obtain p3 found' where "parse rt m p2 (valueOfFlag, v) [] = Ret (p3, found', v')"
      and "r = err p3"
      by (auto simp: bind_Ret_iff)
    with i None show ?thesis unfolding P_def by blast
  next
    case (Some e')
    with k have "r = Some e'" and "v' = v" by simp_all
    with i Some show ?thesis unfolding P_def by blast
  qed
qed


theorem first_error_is_sticky_witness:
  "parse bareRuntime (Suc 0)
     ((NewParser [])\<lparr>container := [(''b'', ''y'')], err := Some ErrInvalidUnmarshalError\<rparr>)
     (settable, VString (Prim String) []) ''b'' =
   Ret ((NewParser [])\<lparr>container := [(''b'', ''y'')], err := Some ErrInvalidUnmarshalError\<rparr>,
        False, VString (Prim String) [])
   \<and> structLoop (parse bareRuntime (Suc 0))
       ((NewParser [])\<lparr>container := [(''b'', ''y'')], err := Some ErrInvalidUnmarshalError\<rparr>)
       settable [] False [(fieldB, VString (Prim String) [])] =
     Ret ((NewParser [])\<lparr>container := [(''b'', ''y'')], err := Some ErrInvalidUnmarshalError\<rparr>,
          False, [VString (Prim String) []])
   \<and> Unmarshal bareRuntime (Suc (Suc (Suc 0))) (NewParser []) ''a=x&b=y''
       (VPtr (PtrT abStruct) (Some (zero abStruct))) =
     Ret (Some (ErrInvalidParamValue ''x'' ''a''
                 (ErrTranslated (NumError ''ParseInt'' ''x'' ''invalid syntax''))),
          VPtr (PtrT abStruct) (Some (zero abStruct)),
          (NewParser [])\<lparr>queryEncoder := Some plainEncoder,
             err := Some (ErrInvalidParamValue ''x'' ''a''
                           (ErrTranslated (NumError ''ParseInt'' ''x'' ''invalid syntax'')))\<rparr>)"
  using first_error_is_sticky
          [where p = "(NewParser [])\<lparr>container := [(''b'', ''y'')], err := Some ErrInvalidUnmarshalError\<rparr>"
             and e = ErrInvalidUnmarshalError and rt = bareRuntime and n = 0
             and rv = "(settable, VString (Prim String) [])" and parentNode = "[]"
             and fl = settable and found = False and rest = "[]" and xs = "[]" and i = 0
             and m = 0 and ft = fieldB and fv = VInvalid and q = "NewParser []"]
  by (simp add: engine_defs example_defs)

section \<open>Required fields\<close>

text \<open>
  Claim C1. The claim expects \<open>ErrMissingRequiredParam\<close> whenever the recursion into a
  required field reports \<open>found = false\<close>, regardless of what other fields of the struct
  matched. \<open>parseForStruct\<close> tests the \<open>found\<close> of the whole struct so far
  (\<open>found = p.parse(...) || found\<close>), not the result of the recursion. With the fields
  \<open>A int `query:"a"`\<close> and \<open>B string `query:"b,required"`\<close> and the input
  \<open>a=1&b[x]=2\<close>, a key exists under \<open>b\<close>, the recursion into \<open>B\<close> reports
  \<open>found = false\<close>, and the call returns no error, because \<open>A\<close> was found before; with
  the same fields declared in the order \<open>B\<close>, \<open>A\<close> the same input fails with
  \<open>ErrMissingRequiredParam\<close> for \<open>b\<close>.
\<close>

theorem required_check_reads_accumulated_found:
  "lookup ((NewParser [])\<lparr>container := [(''a'', ''1''), (''b[x]'', ''2'')]\<rparr>) ''b'' = [''x'']
   \<and> parse bareRuntime (Suc 0)
       ((NewParser [])\<lparr>container := [(''a'', ''1''), (''b[x]'', ''2'')]\<rparr>)
       (settable, VString (Prim String) []) ''b'' =
     Ret ((NewParser [])\<lparr>container := [(''a'', ''1''), (''b[x]'', ''2'')]\<rparr>, False,
          VString (Prim String) [])
   \<and> Unmarshal bareRuntime (Suc (Suc (Suc 0))) (NewParser []) ''a=1&b[x]=2''
       (VPtr (PtrT abStruct) (Some (zero abStruct))) =
     Ret (None,
          VPtr (PtrT abStruct)
            (Some (VStruct abStruct [VInt (Prim IntK) 1, VString (Prim String) []])),
          (NewParser [])\<lparr>queryEncoder := Some plainEncoder\<rparr>)
   \<and> Unmarshal bareRuntime (Suc (Suc (Suc 0))) (NewParser []) ''a=1&b[x]=2''
       (VPtr (PtrT baStruct) (Some (zero baStruct))) =
     Ret (Some (ErrMissingRequiredParam ''b''),
          VPtr (PtrT baStruct) (Some (zero baStruct)),
          (NewParser [])\<lparr>queryEncoder := Some plainEncoder,
             err := Some (ErrMissingRequiredParam ''b'')\<rparr>)"
  by (simp add: engine_defs example_defs)

theorem required_check_reads_accumulated_found_witness:
  "(case Unmarshal bareRuntime (Suc (Suc (Suc 0))) (NewParser []) ''a=1&b[x]=2''
           (VPtr (PtrT abStruct) (Some (zero abStruct))) of
      Ret (e, v, p) \<Rightarrow> e = None
    | _ \<Rightarrow> False)
   \<and> (case Unmarshal bareRuntime (Suc (Suc (Suc 0))) (NewParser []) ''a=1&b[x]=2''
           (VPtr (PtrT baStruct) (Some (zero baStruct))) of
      Ret (e, v, p) \<Rightarrow> e = Some (ErrMissingRequiredParam ''b'')
    | _ \<Rightarrow> False)"
  using required_check_reads_accumulated_found by simp

text \<open>
  The check before the recursion does what the claim says: at a required field reached
  with no error recorded and with no container key under its prefix, the loop records
  \<open>ErrMissingRequiredParam\<close> with that prefix and returns at once, whatever the earlier
  fields found.
\<close>

lemma required_field_without_keys:
  assumes "err p = None"
    and "\<not> (Anonymous ft \<and> Kind fv = Struct)" and "QueryTag ft \<noteq> ''-''"
    and "contains (newTag (QueryTag ft)) ''required''"
    and "nodeName = genNextParentNode parentNode
           (if getName (newTag (QueryTag ft)) = [] then Name ft else getName (newTag (QueryTag ft)))"
    and "lookup p nodeName = []"
  shows "structLoop rec p fl parentNode found ((ft, fv) # rest) =
           Ret (p\<lparr>err := Some (ErrMissingRequiredParam nodeName)\<rparr>, found, fv # map snd rest)"
  using assms by (auto simp: Let_def setMissing_def)

section \<open>Maps with an unsupported key or value kind\<close>




section \<open>Fixed arrays and slices\<close>

text \<open>
  Claim C3. In every runtime in which no strategy of the chain claims the types involved
  and the escaping strategy leaves the four tokens unchanged, and for every budget of at
  least three, decoding \<open>1=20&3=30\<close> into a zero \<open>[5]int\<close> returns no error and the array
  \<open>[0,20,0,30,0]\<close>; decoding it into an empty \<open>[]int\<close>, or a nil one, returns no error
  and the slice \<open>[0,20,0,30]\<close>, of length \<open>max(index)+1 = 4\<close>.
\<close>

theorem array_and_slice_example:
  assumes "\<forall>s \<in> set [''1'', ''20'', ''3'', ''30'']. passes rt s"
    and "\<forall>t \<in> set [PtrT intArray5, intArray5, PtrT intSlice, intSlice, Prim IntK]. unclaimed rt t"
  shows "Unmarshal rt (Suc (Suc (Suc n))) (NewParser []) ''1=20&3=30''
           (VPtr (PtrT intArray5) (Some (zero intArray5))) =
         Ret (None,
              VPtr (PtrT intArray5)
                (Some (VArray intArray5
                   [VInt (Prim IntK) 0, VInt (Prim IntK) 20, VInt (Prim IntK) 0,
                    VInt (Prim IntK) 30, VInt (Prim IntK) 0])),
              (NewParser [])\<lparr>queryEncoder := Some (getQueryEncoder rt)\<rparr>)
       \<and> Unmarshal rt (Suc (Suc (Suc n))) (NewParser []) ''1=20&3=30''
           (VPtr (PtrT intSlice) (Some (VSlice intSlice (Some [])))) =
         Ret (None,
              VPtr (PtrT intSlice)
                (Some (VSlice intSlice (Some
                   [VInt (Prim IntK) 0, VInt (Prim IntK) 20, VInt (Prim IntK) 0,
                    VInt (Prim IntK) 30]))),
              (NewParser [])\<lparr>queryEncoder := Some (getQueryEncoder rt)\<rparr>)
       \<and> Unmarshal rt (Suc (Suc (Suc n))) (NewParser []) ''1=20&3=30''
           (VPtr (PtrT intSlice) (Some (VSlice intSlice None))) =
         Ret (None,
              VPtr (PtrT intSlice)
                (Some (VSlice intSlice (Some
                   [VInt (Prim IntK) 0, VInt (Prim IntK) 20, VInt (Prim IntK) 0,
                    VInt (Prim IntK) 30]))),
              (NewParser [])\<lparr>queryEncoder := Some (getQueryEncoder rt)\<rparr>)"
proof -
  have "Unmarshal rt (Suc (Suc (Suc n))) (NewParser []) ''1=20&3=30''
           (VPtr (PtrT intArray5) (Some (zero intArray5))) =
         Ret (None,
              VPtr (PtrT intArray5)
                (Some (VArray intArray5
                   [VInt (Prim IntK) 0, VInt (Prim IntK) 20, VInt (Prim IntK) 0,
                    VInt (Prim IntK) 30, VInt (Prim IntK) 0])),
              (NewParser [])\<lparr>queryEncoder := Some (getQueryEncoder rt)\<rparr>)"
    using assms by (simp add: engine_defs example_defs replicate_5)
  moreover have "Unmarshal rt (Suc (Suc (Suc n))) (NewParser []) ''1=20&3=30''
           (VPtr (PtrT intSlice) (Some (VSlice intSlice xs))) =
         Ret (None,
              VPtr (PtrT intSlice)
                (Some (VSlice intSlice (Some
                   [VInt (Prim IntK) 0, VInt (Prim IntK) 20, VInt (Prim IntK) 0,
                    VInt (Prim IntK) 30]))),
              (NewParser [])\<lparr>queryEncoder := Some (getQueryEncoder rt)\<rparr>)"
    if "xs = Some [] \<or> xs = None" for xs
    using assms that by (auto simp: engine_defs example_defs replicate_4)
  ultimately show ?thesis by simp
qed

theorem array_and_slice_example_witness:
  "Unmarshal bareRuntime (Suc (Suc (Suc 0))) (NewParser []) ''1=20&3=30''
     (VPtr (PtrT intArray5) (Some (zero intArray5))) =
   Ret (None,
        VPtr (PtrT intArray5)
          (Some (VArray intArray5
             [VInt (Prim IntK) 0, VInt (Prim IntK) 20, VInt (Prim IntK) 0,
              VInt (Prim IntK) 30, VInt (Prim IntK) 0])),
        (NewParser [])\<lparr>queryEncoder := Some plainEncoder\<rparr>)"
proof -
  have "\<forall>s \<in> set [''1'', ''20'', ''3'', ''30'']. passes bareRuntime s"
    by (simp add: passes_def bareRuntime_def plainEncoder_def)
  moreover have "\<forall>t \<in> set [PtrT intArray5, intArray5, PtrT intSlice, intSlice, Prim IntK].
                   unclaimed bareRuntime t"
    by (simp add: unclaimed_def bareRuntime_def)
  ultimately show ?thesis
    using array_and_slice_example [of bareRuntime 0] by (simp add: bareRuntime_def)
qed

section \<open>Auto-indexing of keys that end in brackets\<close>

lemma autoIndex_found:
  assumes "i < 1000000" and "map_of c (tKeyOf base i) = None"
    and "\<forall>j. s \<le> j \<and> j < i \<longrightarrow> map_of c (tKeyOf base j) \<noteq> None" and "s \<le> i"
  shows "autoIndex c base s = Some (tKeyOf base i)"
  using assms
proof (induction "i - s" arbitrary: s)
  case 0
  then have "s = i" by simp
  with 0 show ?case by (simp add: autoIndex.simps [of c base i] Let_def)
next
  case (Suc d)
  then have lt: "s < i" by simp
  with Suc.prems have occupied: "map_of c (tKeyOf base s) \<noteq> None" by simp
  have "autoIndex c base (Suc s) = Some (tKeyOf base i)"
    using Suc.hyps Suc.prems lt by (intro Suc.hyps(1)) auto
  moreover have "s < 1000000" using lt Suc.prems(1) by simp
  ultimately show ?case
    using occupied by (auto simp: autoIndex.simps [of c base s] Let_def)
qed

lemma autoIndex_exhausted:
  assumes "\<forall>j. s \<le> j \<and> j < 1000000 \<longrightarrow> map_of c (tKeyOf base j) \<noteq> None"
  shows "autoIndex c base s = None"
  using assms
proof (induction "1000000 - s" arbitrary: s)
  case 0
  then show ?case by (simp add: autoIndex.simps [of c base s])
next
  case (Suc d)
  then have lt: "s < 1000000" by simp
  have "autoIndex c base (Suc s) = None"
    using Suc.hyps Suc.prems by (intro Suc.hyps(1)) auto
  moreover have "map_of c (tKeyOf base s) \<noteq> None" using Suc.prems lt by simp
  ultimately show ?case using lt by (auto simp: autoIndex.simps [of c base s] Let_def)
qed

lemma repackKey_smallest_free_index:
  assumes "2 < length key" and "drop (length key - 2) key = ''[]''"
  shows "(\<exists>i<1000000. map_of c (tKeyOf (take (length key - 2) key) i) = None
            \<and> (\<forall>j<i. map_of c (tKeyOf (take (length key - 2) key) j) \<noteq> None)
            \<and> repackKey c key = tKeyOf (take (length key - 2) key) i)
         \<or> ((\<forall>i<1000000. map_of c (tKeyOf (take (length key - 2) key) i) \<noteq> None)
            \<and> repackKey c key = key)"
proof (cases "\<exists>i<1000000. map_of c (tKeyOf (take (length key - 2) key) i) = None")
  case True
  define Q where "Q i \<longleftrightarrow> i < 1000000 \<and> map_of c (tKeyOf (take (length key - 2) key) i) = None"
    for i
  from True have "\<exists>i. Q i" by (auto simp: Q_def)
  then obtain i where i: "Q i" and least: "\<forall>j<i. \<not> Q j"
    using exists_least_iff [of Q] by blast
  have lt: "i < 1000000" and free: "map_of c (tKeyOf (take (length key - 2) key) i) = None"
    using i by (auto simp: Q_def)
  have below: "\<forall>j<i. map_of c (tKeyOf (take (length key - 2) key) j) \<noteq> None"
    using least lt by (auto simp: Q_def)
  have "autoIndex c (take (length key - 2) key) 0 = Some (tKeyOf (take (length key - 2) key) i)"
    using lt free below by (intro autoIndex_found) auto
  then have "repackKey c key = tKeyOf (take (length key - 2) key) i"
    using assms by (simp add: repackKey_def)
  with lt free below show ?thesis by blast
next
  case False
  then have all: "\<forall>i<1000000. map_of c (tKeyOf (take (length key - 2) key) i) \<noteq> None"
    by simp
  then have "autoIndex c (take (length key - 2) key) 0 = None"
    by (intro autoIndex_exhausted) auto
  then have "repackKey c key = key" using assms by (simp add: repackKey_def)
  with all show ?thesis by blast
qed

lemma tags_example:
  assumes "\<forall>s \<in> set [''tags[]'', ''1'', ''2'']. passes rt s"
    and "\<forall>t \<in> set [PtrT tagsStruct, tagsStruct, intSlice, Prim IntK]. unclaimed rt t"
  shows "Unmarshal rt (Suc (Suc (Suc (Suc n)))) (NewParser []) ''tags[]=1&tags[]=2''
           (VPtr (PtrT tagsStruct) (Some (zero tagsStruct))) =
         Ret (None,
              VPtr (PtrT tagsStruct)
                (Some (VStruct tagsStruct
                   [VSlice intSlice (Some [VInt (Prim IntK) 1, VInt (Prim IntK) 2])])),
              (NewParser [])\<lparr>queryEncoder := Some (getQueryEncoder rt)\<rparr>)"
  using assms
  by (simp add: engine_defs example_defs autoIndex.simps replicate_2)

text \<open>
  Claim C4, as the claim states it, fails on the key \<open>[]\<close>, which ends in \<open>[]\<close>: \<open>init\<close>
  rewrites a key only when it is longer than two bytes, and stores \<open>[]=1\<close> under the key
  \<open>[]\<close>, not under \<open>[0]\<close>.
\<close>

theorem bare_brackets_key_is_kept:
  "init ((NewParser [])\<lparr>queryEncoder := Some plainEncoder\<rparr>) ''[]=1'' =
     Ret ((NewParser [])\<lparr>queryEncoder := Some plainEncoder, container := [(''[]'', ''1'')]\<rparr>, None)
   \<and> map_of [(''[]'', ''1'')] (tKeyOf [] 0) = None"
  by (simp add: engine_defs example_defs)

text \<open>
  Claim C4, amended. On the raw-byte path, \<open>init\<close> stores each pair under the rewritten key.
  A key longer than two bytes that ends in \<open>[]\<close> is rewritten to \<open>base[i]\<close> for the smallest
  \<open>i\<close>, scanned upward from 0, such that \<open>base[i]\<close> is no container key, provided such an
  \<open>i\<close> exists below 1,000,000; otherwise the key is left as it is. Decoding
  \<open>tags[]=1&tags[]=2\<close> into \<open>struct { Tags []int `query:"tags"` }\<close> yields the slice
  \<open>[1,2]\<close>, in encounter order.
\<close>

theorem auto_index_smallest_free:
  assumes "2 < length key" and "drop (length key - 2) key = ''[]''"
    and "\<forall>s \<in> set [''tags[]'', ''1'', ''2'']. passes rt s"
    and "\<forall>t \<in> set [PtrT tagsStruct, tagsStruct, intSlice, Prim IntK]. unclaimed rt t"
  shows "((\<exists>i<1000000. map_of c (tKeyOf (take (length key - 2) key) i) = None
            \<and> (\<forall>j<i. map_of c (tKeyOf (take (length key - 2) key) j) \<noteq> None)
            \<and> repackKey c key = tKeyOf (take (length key - 2) key) i)
          \<or> ((\<forall>i<1000000. map_of c (tKeyOf (take (length key - 2) key) i) \<noteq> None)
            \<and> repackKey c key = key))
       \<and> (UnEscape q k0 = (key, None) \<and> UnEscape q v0 = (v, None)
            \<and> SplitN2 SymbolEqual piece = [k0, v0] \<longrightarrow>
          initLoop q c (piece # arr) = initLoop q (cset c (repackKey c key) v) arr)
       \<and> Unmarshal rt (Suc (Suc (Suc (Suc n)))) (NewParser []) ''tags[]=1&tags[]=2''
           (VPtr (PtrT tagsStruct) (Some (zero tagsStruct))) =
         Ret (None,
              VPtr (PtrT tagsStruct)
                (Some (VStruct tagsStruct
                   [VSlice intSlice (Some [VInt (Prim IntK) 1, VInt (Prim IntK) 2])])),
              (NewParser [])\<lparr>queryEncoder := Some (getQueryEncoder rt)\<rparr>)"
  using repackKey_smallest_free_index [OF assms(1,2), of c] tags_example [OF assms(3,4), of n]
  by simp

theorem auto_index_smallest_free_witness:
  "repackKey [(''tags[0]'', ''1'')] ''tags[]'' = ''tags[1]''
   \<and> init ((NewParser [])\<lparr>queryEncoder := Some plainEncoder\<rparr>) ''tags[]=1&tags[]=2'' =
       Ret ((NewParser [])\<lparr>queryEncoder := Some plainEncoder,
              container := [(''tags[0]'', ''1''), (''tags[1]'', ''2'')]\<rparr>, None)
   \<and> Unmarshal bareRuntime (Suc (Suc (Suc (Suc 0)))) (NewParser []) ''tags[]=1&tags[]=2''
       (VPtr (PtrT tagsStruct) (Some (zero tagsStruct))) =
     Ret (None,
          VPtr (PtrT tagsStruct)
            (Some (VStruct tagsStruct
               [VSlice intSlice (Some [VInt (Prim IntK) 1, VInt (Prim IntK) 2])])),
          (NewParser [])\<lparr>queryEncoder := Some plainEncoder\<rparr>)"
proof -
  have "\<forall>s \<in> set [''tags[]'', ''1'', ''2'']. passes bareRuntime s"
    by (simp add: passes_def bareRuntime_def plainEncoder_def)
  moreover have "\<forall>t \<in> set [PtrT tagsStruct, tagsStruct, intSlice, Prim IntK].
                   unclaimed bareRuntime t"
    by (simp add: unclaimed_def bareRuntime_def)
  moreover have "repackKey [(''tags[0]'', ''1'')] ''tags[]'' = ''tags[1]''"
    by (simp add: engine_defs autoIndex.simps)
  moreover have "init ((NewParser [])\<lparr>queryEncoder := Some plainEncoder\<rparr>) ''tags[]=1&tags[]=2'' =
       Ret ((NewParser [])\<lparr>queryEncoder := Some plainEncoder,
              container := [(''tags[0]'', ''1''), (''tags[1]'', ''2'')]\<rparr>, None)"
    by (simp add: engine_defs example_defs autoIndex.simps)
  ultimately show ?thesis
    using auto_index_smallest_free
            [where key = "''tags[]''" and rt = bareRuntime and n = 0
               and c = "[(''tags[0]'', ''1'')]"]
    by (simp add: bareRuntime_def)
qed

section \<open>Skipped fields\<close>

lemma structLoop_length:
  "structLoop rec p fl parentNode found fs = Ret (p', f', fvs') \<Longrightarrow> length fvs' = length fs"
proof (induction fs arbitrary: p found p' f' fvs')
  case Nil
  then show ?case by simp
next
  case (Cons a fs)
  obtain ft fv where a: "a = (ft, fv)" by (cases a)
  show ?case
    using Cons.prems Cons.IH unfolding a
    by (auto simp: Let_def bind_Ret_iff split: if_splits)
qed

lemma structLoop_skip_frame:
  "structLoop rec p fl parentNode found fs = Ret (p', f', fvs') \<Longrightarrow>
   i < length fs \<Longrightarrow> QueryTag (fst (fs ! i)) = ''-'' \<Longrightarrow>
   \<not> (Anonymous (fst (fs ! i)) \<and> Kind (snd (fs ! i)) = Struct) \<Longrightarrow>
   fvs' ! i = snd (fs ! i)"
proof (induction fs arbitrary: p found p' f' fvs' i)
  case Nil
  then show ?case by simp
next
  case (Cons a fs)
  obtain ft fv where a: "a = (ft, fv)" by (cases a)
  show ?case
  proof (cases i)
    case 0
    then show ?thesis
      using Cons.prems unfolding a by (auto simp: Let_def bind_Ret_iff split: if_splits)
  next
    case (Suc j)
    then show ?thesis
      using Cons.prems Cons.IH [where i = j] unfolding a
      by (auto simp: Let_def bind_Ret_iff split: if_splits)
  qed
qed

text \<open>
  Claim C9, as the claim states it, fails for an embedded struct: \<open>parseForStruct\<close> decodes
  an anonymous field of kind struct before it looks at the tag. With
  \<open>type Inner struct { X int }\<close> embedded as \<open>Inner `query:"-"`\<close>, the input \<open>X=5\<close>
  writes 5 into the skipped field.
\<close>

theorem skipped_embedded_struct_is_written:
  "Unmarshal bareRuntime (Suc (Suc (Suc (Suc 0)))) (NewParser []) ''X=5''
     (VPtr (PtrT outerStruct) (Some (VStruct outerStruct [VStruct innerStruct [VInt (Prim IntK) 0]]))) =
   Ret (None,
        VPtr (PtrT outerStruct)
          (Some (VStruct outerStruct [VStruct innerStruct [VInt (Prim IntK) 5]])),
        (NewParser [])\<lparr>queryEncoder := Some plainEncoder\<rparr>)"
  by (simp add: engine_defs example_defs)

text \<open>
  Claim C9, amended. For every destination in which no two locations share storage (no
  pointer reachable from the destination points into the skipped field; the values of this
  theory are such trees), for every struct of it that \<open>parse\<close> expands field by field (no
  strategy of the chain claims its type), and for every input, parser, prefix and budget: a
  field tagged \<open>-\<close> that is not an embedded struct is never written; whenever \<open>parse\<close>
  returns, the struct has the same fields and the content of the skipped field is what it
  was. Where a pointer field points at the skipped field, \<open>parseForPrt\<close> decodes through
  the pointer and the skipped field changes; such destinations are outside this theory.
\<close>

theorem skipped_field_is_kept:
  assumes "parse rt (Suc n) p (fl, VStruct t fvs) parentNode = Ret (p', found, v')"
    and "typeFields t = Some fts" and "\<not> canImmediatelyDecode rt p t"
    and "i < length fts" and "QueryTag (fts ! i) = ''-''"
    and "\<not> (Anonymous (fts ! i) \<and> Kind (fvs ! i) = Struct)"
  shows "\<exists>fvs'. v' = VStruct t fvs' \<and> length fvs' = length fvs \<and> fvs' ! i = fvs ! i"
proof (cases "err p")
  case (Some e)
  with assms(1) have "v' = VStruct t fvs" by (simp add: parseStep_def)
  then show ?thesis by simp
next
  case None
  have kind: "typeKind t = Struct"
    using assms(2) by (auto simp: typeFields_def typeKind_def split: gotype.splits)
  from assms(1) None kind assms(3)
  have run: "parseForStruct (parse rt n) p (fl, VStruct t fvs) parentNode = Ret (p', found, v')"
    by (simp add: parseStep_def Kind_def)
  with assms(2) have len: "length fts = length fvs"
    by (auto simp: parseForStruct_def split: if_splits)
  from run assms(2) len obtain fvs' where
    loop: "structLoop (parse rt n) p fl parentNode False (zip fts fvs) = Ret (p', found, fvs')"
    and v': "v' = VStruct t fvs'"
    by (auto simp: parseForStruct_def bind_Ret_iff)
  have "length fvs' = length (zip fts fvs)"
    using loop by (rule structLoop_length)
  moreover have "fvs' ! i = snd (zip fts fvs ! i)"
    using loop assms(4,5,6) len by (intro structLoop_skip_frame [OF loop]) auto
  ultimately show ?thesis using v' len assms(4) by simp
qed

theorem skipped_field_is_kept_witness:
  "parse bareRuntime (Suc (Suc 0))
     ((NewParser [])\<lparr>container := [(''desc'', ''c''), (''Height'', ''5'')]\<rparr>)
     (settable, VStruct childStruct [VString (Prim String) [], VInt (Prim IntK) 7]) [] =
   Ret ((NewParser [])\<lparr>container := [(''desc'', ''c''), (''Height'', ''5'')]\<rparr>, True,
        VStruct childStruct [VString (Prim String) ''c'', VInt (Prim IntK) 7])"
  using skipped_field_is_kept
          [where rt = bareRuntime and n = "Suc 0"
             and p = "(NewParser [])\<lparr>container := [(''desc'', ''c''), (''Height'', ''5'')]\<rparr>"
             and fl = settable and t = childStruct
             and fvs = "[VString (Prim String) [], VInt (Prim IntK) 7]" and parentNode = "[]"
             and i = 1]
  by (simp add: engine_defs example_defs)

end
